theory Spec2Isabelle
  imports Complex_Main "HOL-Library.Multiset"
begin

section \<open>Numbers, vectors and rotations\<close>

text \<open>
  The cube logic of \<^verbatim>\<open>src/main.js\<close> works on Three.js values (release 0.160, which the
  page imports). Two levels of arithmetic are used.
  \<^item> Exact arithmetic: a JavaScript number is a \<^typ>\<open>real\<close>, \<^verbatim>\<open>Math.PI\<close> is \<open>pi\<close>,
    \<^verbatim>\<open>Math.sin\<close> is \<open>sin\<close>, and no operation rounds. The session (guards, history,
    modes, gestures, buttons), the closeness measure and the action of a turn on the
    lattice of positions are embedded at this level. The orientation of a mesh is kept
    as the rotation matrix of its quaternion, given by its three columns (the images of
    the unit vectors): \<^verbatim>\<open>Object3D.attach\<close> multiplies the child's matrix from the left
    and decomposes the product again, and \<^verbatim>\<open>applyQuaternion\<close> on a unit vector reads
    a column of it. A quaternion and its negative are the same orientation.
  \<^item> Binary64: every operation rounds to the nearest double. The turn is embedded a
    second time at this level (sections \<open>Binary64 arithmetic\<close> to
    \<open>The turn in binary64\<close>), with the quaternion and the scale of each mesh and with
    the composition, product and decomposition of matrices inside \<^verbatim>\<open>attach\<close>. What
    a turn does to the quaternion of a cubelet depends on the rounding and is stated
    at this level only.
  A \<^verbatim>\<open>Vector3\<close> is a triple, a \<^verbatim>\<open>Quaternion\<close> a quadruple \<open>(x, y, z, w)\<close>.
  An awaited turn is one step: the frames before the last one only redraw, and every
  handler that could change the cube between them returns at its \<^verbatim>\<open>isTurning\<close> guard.
\<close>

type_synonym vec3 = "real \<times> real \<times> real"
type_synonym quat = "real \<times> real \<times> real \<times> real"
type_synonym mat3 = "vec3 \<times> vec3 \<times> vec3"

datatype axis = X | Y | Z

fun component :: "vec3 \<Rightarrow> axis \<Rightarrow> real" where
  "component (x, y, z) X = x"
| "component (x, y, z) Y = y"
| "component (x, y, z) Z = z"

definition Math_round :: "real \<Rightarrow> int" where
  "Math_round v = \<lfloor>v + 1 / 2\<rfloor>"

definition Math_sign_or_1 :: "real \<Rightarrow> int" where
  "Math_sign_or_1 v = (if v > 0 then 1 else if v < 0 then - 1 else 1)"

fun sub :: "vec3 \<Rightarrow> vec3 \<Rightarrow> vec3" where
  "sub (a, b, c) (x, y, z) = (a - x, b - y, c - z)"

fun dot :: "vec3 \<Rightarrow> vec3 \<Rightarrow> real" where
  "dot (a, b, c) (x, y, z) = a * x + b * y + c * z"

fun crossVectors :: "vec3 \<Rightarrow> vec3 \<Rightarrow> vec3" where
  "crossVectors (ax, ay, az) (bx, by, bz) =
     (ay * bz - az * by, az * bx - ax * bz, ax * by - ay * bx)"

definition lengthSq :: "vec3 \<Rightarrow> real" where
  "lengthSq v = dot v v"

definition normalize :: "vec3 \<Rightarrow> vec3" where
  "normalize v =
     (let l = sqrt (lengthSq v); d = (if l = 0 then 1 else l)
      in case v of (x, y, z) \<Rightarrow> (x / d, y / d, z / d))"

definition identityMatrix :: mat3 where
  "identityMatrix = ((1, 0, 0), (0, 1, 0), (0, 0, 1))"

fun applyMatrix3 :: "mat3 \<Rightarrow> vec3 \<Rightarrow> vec3" where
  "applyMatrix3 ((a1, a2, a3), (b1, b2, b3), (c1, c2, c3)) (x, y, z) =
     (a1 * x + b1 * y + c1 * z, a2 * x + b2 * y + c2 * z, a3 * x + b3 * y + c3 * z)"

fun multiplyMatrices :: "mat3 \<Rightarrow> mat3 \<Rightarrow> mat3" where
  "multiplyMatrices g (c1, c2, c3) = (applyMatrix3 g c1, applyMatrix3 g c2, applyMatrix3 g c3)"

definition identityQuaternion :: quat where
  "identityQuaternion = (0, 0, 0, 1)"

fun setFromAxisAngle :: "vec3 \<Rightarrow> real \<Rightarrow> quat" where
  "setFromAxisAngle (ax, ay, az) angle =
     (let halfAngle = angle / 2; s = sin halfAngle
      in (ax * s, ay * s, az * s, cos halfAngle))"

fun multiplyQuaternions :: "quat \<Rightarrow> quat \<Rightarrow> quat" where
  "multiplyQuaternions (qax, qay, qaz, qaw) (qbx, qby, qbz, qbw) =
     (qax * qbw + qaw * qbx + qay * qbz - qaz * qby,
      qay * qbw + qaw * qby + qaz * qbx - qax * qbz,
      qaz * qbw + qaw * qbz + qax * qby - qay * qbx,
      qaw * qbw - qax * qbx - qay * qby - qaz * qbz)"

text \<open>The rotation block that \<^verbatim>\<open>Matrix4.compose\<close> builds from a quaternion (scale 1).\<close>

fun makeRotationFromQuaternion :: "quat \<Rightarrow> mat3" where
  "makeRotationFromQuaternion (x, y, z, w) =
     (let x2 = x + x; y2 = y + y; z2 = z + z;
          xx = x * x2; xy = x * y2; xz = x * z2;
          yy = y * y2; yz = y * z2; zz = z * z2;
          wx = w * x2; wy = w * y2; wz = w * z2
      in ((1 - (yy + zz), xy + wz, xz - wy),
          (xy - wz, 1 - (xx + zz), yz + wx),
          (xz + wy, yz - wx, 1 - (xx + yy))))"

section \<open>Helpers of main.js\<close>

definition roundedIndex :: "real \<Rightarrow> int" where
  "roundedIndex val =
     (let v = Math_round val
      in if v < - 1 then - 1 else if v > 1 then 1 else v)"

fun axisOfVector :: "vec3 \<Rightarrow> axis" where
  "axisOfVector (x, y, z) =
     (let ax = \<bar>x\<bar>; ay = \<bar>y\<bar>; az = \<bar>z\<bar>
      in if ax > ay \<and> ax > az then X
         else if ay > ax \<and> ay > az then Y
         else Z)"

fun vectorForAxis :: "axis \<Rightarrow> int \<Rightarrow> vec3" where
  "vectorForAxis X sg = (real_of_int sg, 0, 0)"
| "vectorForAxis Y sg = (0, real_of_int sg, 0)"
| "vectorForAxis Z sg = (0, 0, real_of_int sg)"

section \<open>Cubelets and session state\<close>

text \<open>
  A cubelet is a mesh: \<open>home\<close> is \<^verbatim>\<open>userData.home\<close>, \<open>position\<close> its local position,
  \<open>orientation\<close> its rotation, and \<open>parent\<close> tells whether it hangs under \<^verbatim>\<open>cubeRoot\<close>
  or under the transient group of the turn in flight.
\<close>

datatype parent = CubeRoot | TurnGroup

record cubelet =
  home :: vec3
  position :: vec3
  orientation :: mat3
  parent :: parent

text \<open>
  A move as \<^verbatim>\<open>animateTurn\<close> receives and records it. The callers pass 1 or -1 for
  \<open>sign\<close>; \<open>quarters\<close> is 1 by default and 2 for a double click.
\<close>

record move =
  axis :: axis
  sign :: int
  cw :: bool
  quarters :: nat

datatype mode = Idle | Setup | Play

record drag_info =
  normal :: vec3
  dragAxis :: axis
  dragSign :: int
  startPoint :: vec3
  uVec :: vec3
  vVec :: vec3

text \<open>The turn in flight: what the closure of \<^verbatim>\<open>step\<close> holds until the last frame.\<close>

record turn =
  endQuat :: quat
  turnMove :: move
  turnRecord :: bool

record session =
  cubelets :: "cubelet list"
  isPointerDown :: bool
  dragInfo :: "drag_info option"
  isTurning :: bool
  moveHistory :: "move list"
  mode :: mode
  setupCount :: nat
  setupSequence :: "move list"
  controlsEnabled :: bool
  turnInFlight :: "turn option"

definition newCubelet :: "int \<Rightarrow> int \<Rightarrow> int \<Rightarrow> cubelet" where
  "newCubelet xi yi zi =
     \<lparr>home = (real_of_int xi, real_of_int yi, real_of_int zi),
      position = (real_of_int xi, real_of_int yi, real_of_int zi),
      orientation = identityMatrix,
      parent = CubeRoot\<rparr>"

definition buildSolvedCube :: "cubelet list" where
  "buildSolvedCube =
     concat (map (\<lambda>xi. concat (map (\<lambda>yi. map (\<lambda>zi. newCubelet xi yi zi)
       [- 1, 0, 1]) [- 1, 0, 1])) [- 1, 0, 1])"

text \<open>The state right after \<^verbatim>\<open>init\<close> has built the cube and declared its variables.\<close>

definition initialSession :: session where
  "initialSession =
     \<lparr>cubelets = buildSolvedCube, isPointerDown = False, dragInfo = None,
      isTurning = False, moveHistory = [], mode = Idle, setupCount = 0,
      setupSequence = [], controlsEnabled = True, turnInFlight = None\<rparr>"

section \<open>Layer selection and the turn\<close>

definition selectLayer :: "axis \<Rightarrow> int \<Rightarrow> cubelet list \<Rightarrow> cubelet list" where
  "selectLayer ax sg cs = filter (\<lambda>c. roundedIndex (component (position c) ax) = sg) cs"

text \<open>
  \<^verbatim>\<open>attachPreserve(c, group)\<close> at the start of a turn: the group still has the
  identity transform, so the local position and rotation of the child stay as they are.
\<close>

definition attachPreserve :: "cubelet \<Rightarrow> cubelet" where
  "attachPreserve c = c\<lparr>parent := TurnGroup\<rparr>"

text \<open>
  \<^verbatim>\<open>detachPreserve(c, cubeRoot)\<close> on the last frame: the child's matrix is multiplied
  from the left by the matrix \<open>g\<close> of the group and decomposed again. The group sits at
  the origin with scale 1, so \<open>g\<close> is the rotation block of its quaternion. For a layer
  sign of 1 or -1 that block is a rotation; for sign 0 the axis is the zero vector and
  the block is the identity; for any other sign \<open>selectLayer\<close> returns no cubelet.
  The product is the exact one; \<open>detachPreserve64\<close> below is the rounded one.
\<close>

definition detachPreserve :: "mat3 \<Rightarrow> cubelet \<Rightarrow> cubelet" where
  "detachPreserve g c =
     c\<lparr>position := applyMatrix3 g (position c),
       orientation := multiplyMatrices g (orientation c),
       parent := CubeRoot\<rparr>"

definition snapToGrid :: "cubelet \<Rightarrow> cubelet" where
  "snapToGrid c =
     (case position c of (x, y, z) \<Rightarrow>
        c\<lparr>position := (real_of_int (Math_round x), real_of_int (Math_round y),
                       real_of_int (Math_round z))\<rparr>)"

definition anglePerQuarter :: real where
  "anglePerQuarter = pi / 2"

definition targetAngle :: "bool \<Rightarrow> nat \<Rightarrow> real" where
  "targetAngle c q = (if c then - anglePerQuarter else anglePerQuarter) * max 1 (real q)"

text \<open>
  The synchronous part of \<^verbatim>\<open>animateTurn\<close> once the guard has passed: lock, select the
  layer, hang it under the group, fix the end rotation.
\<close>

definition beginTurn :: "move \<Rightarrow> bool \<Rightarrow> session \<Rightarrow> session" where
  "beginTurn m rec s =
     (let turnAxis = vectorForAxis (axis m) (sign m);
          layerCubelets = selectLayer (axis m) (sign m) (cubelets s);
          cs = map (\<lambda>c. if c \<in> set layerCubelets then attachPreserve c else c) (cubelets s);
          startQuat = identityQuaternion;
          q = multiplyQuaternions startQuat (setFromAxisAngle turnAxis (targetAngle (cw m) (quarters m)))
      in s\<lparr>cubelets := cs, isTurning := True, controlsEnabled := False,
           turnInFlight := Some \<lparr>endQuat = q, turnMove = m, turnRecord = rec\<rparr>\<rparr>)"

text \<open>
  The last frame of \<^verbatim>\<open>step\<close> (\<open>t = 1\<close>, where \<^verbatim>\<open>slerpQuaternions\<close> yields the end
  rotation itself): detach and snap the children of the group, record, unlock. Earlier
  frames only redraw.
\<close>

definition completeTurn :: "session \<Rightarrow> session" where
  "completeTurn s =
     (case turnInFlight s of
        None \<Rightarrow> s
      | Some t \<Rightarrow>
          (let g = makeRotationFromQuaternion (endQuat t);
               cs = map (\<lambda>c. if parent c = TurnGroup then snapToGrid (detachPreserve g c) else c)
                      (cubelets s);
               s1 = s\<lparr>cubelets := cs, turnInFlight := None\<rparr>;
               s2 = (if turnRecord t
                     then (let s' = s1\<lparr>moveHistory := moveHistory s1 @ [turnMove t]\<rparr>
                           in if mode s' = Setup
                              then s'\<lparr>setupCount := setupCount s' + 1,
                                      setupSequence := setupSequence s' @ [turnMove t]\<rparr>
                              else s')
                     else s1)
           in s2\<lparr>isTurning := False, controlsEnabled := True\<rparr>))"

text \<open>\<^verbatim>\<open>await animateTurn(...)\<close>: rejected at once while a turn is in flight.\<close>

definition animateTurn :: "move \<Rightarrow> bool \<Rightarrow> session \<Rightarrow> session" where
  "animateTurn m rec s = (if isTurning s then s else completeTurn (beginTurn m rec s))"

section \<open>Pointer gestures\<close>

text \<open>
  Ray casting is left to the input layer: a pointer event carries the world normal of the
  picked face (\<open>None\<close> when no cubelet is hit) and the point where its ray meets the drag
  plane.
\<close>

record pointer_event =
  hit :: "vec3 option"
  planePoint :: vec3

definition computeFaceBasis :: "vec3 \<Rightarrow> vec3 \<times> vec3" where
  "computeFaceBasis worldNormal =
     (let up = (0, 1, 0);
          u0 = crossVectors up worldNormal;
          u1 = (if lengthSq u0 < 1 / 1000000 then crossVectors (1, 0, 0) worldNormal else u0);
          u = normalize u1;
          v = normalize (crossVectors worldNormal u)
      in (u, v))"

definition onPointerDown :: "pointer_event \<Rightarrow> session \<Rightarrow> session" where
  "onPointerDown e s =
     (if isTurning s then s
      else case hit e of
        None \<Rightarrow> s\<lparr>isPointerDown := False\<rparr>
      | Some faceNormal \<Rightarrow>
          (let ax = axisOfVector faceNormal;
               sg = Math_sign_or_1 (component faceNormal ax);
               (u, v) = computeFaceBasis faceNormal
           in s\<lparr>isPointerDown := True, controlsEnabled := False,
                dragInfo := Some \<lparr>normal = faceNormal, dragAxis = ax, dragSign = sg,
                                   startPoint = planePoint e, uVec = u, vVec = v\<rparr>\<rparr>))"

definition threshold :: real where
  "threshold = 18 / 100"

definition onPointerUp :: "pointer_event \<Rightarrow> session \<Rightarrow> session" where
  "onPointerUp e s =
     (case dragInfo s of
        None \<Rightarrow> s\<lparr>controlsEnabled := True\<rparr>
      | Some d \<Rightarrow>
          if \<not> isPointerDown s then s\<lparr>controlsEnabled := True\<rparr>
          else
            (let s1 = s\<lparr>isPointerDown := False, dragInfo := None\<rparr>;
                 endPoint = planePoint e;
                 mv = sub endPoint (startPoint d);
                 du = dot mv (uVec d);
                 dv = dot mv (vVec d);
                 adu = \<bar>du\<bar>;
                 adv = \<bar>dv\<bar>
             in if max adu adv < threshold then s1\<lparr>controlsEnabled := True\<rparr>
                else
                  (let c = (if adu \<ge> adv then du > 0 else dv < 0)
                   in animateTurn \<lparr>axis = dragAxis d, sign = dragSign d, cw = c, quarters = 1\<rparr>
                        True s1)))"

definition onDoubleClick :: "pointer_event \<Rightarrow> session \<Rightarrow> session" where
  "onDoubleClick e s =
     (if isTurning s then s
      else case hit e of
        None \<Rightarrow> s
      | Some faceNormal \<Rightarrow>
          (let ax = axisOfVector faceNormal;
               sg = Math_sign_or_1 (component faceNormal ax)
           in animateTurn \<lparr>axis = ax, sign = sg, cw = True, quarters = 2\<rparr> True s))"

section \<open>Closeness\<close>

definition axisAligned :: "vec3 \<Rightarrow> bool" where
  "axisAligned v =
     (case v of (x, y, z) \<Rightarrow>
        \<bar>\<bar>x\<bar> - 1\<bar> < 1 / 1000 \<or> \<bar>\<bar>y\<bar> - 1\<bar> < 1 / 1000 \<or> \<bar>\<bar>z\<bar> - 1\<bar> < 1 / 1000)"

definition posOk :: "cubelet \<Rightarrow> bool" where
  "posOk c =
     (case (position c, home c) of ((px, py, pz), (hx, hy, hz)) \<Rightarrow>
        \<bar>px - hx\<bar> < 1 / 1000 \<and> \<bar>py - hy\<bar> < 1 / 1000 \<and> \<bar>pz - hz\<bar> < 1 / 1000)"

definition aligned :: "cubelet \<Rightarrow> bool" where
  "aligned c =
     (let xAxis = applyMatrix3 (orientation c) (1, 0, 0);
          yAxis = applyMatrix3 (orientation c) (0, 1, 0);
          zAxis = applyMatrix3 (orientation c) (0, 0, 1)
      in axisAligned xAxis \<and> axisAligned yAxis \<and> axisAligned zAxis)"

definition isCore :: "cubelet \<Rightarrow> bool" where
  "isCore c = (case home c of (hx, hy, hz) \<Rightarrow> hx = 0 \<and> hy = 0 \<and> hz = 0)"

text \<open>The loop over \<^verbatim>\<open>cubeRoot.children\<close>, carrying the counters \<open>correct\<close> and \<open>total\<close>.\<close>

fun closenessLoop :: "cubelet list \<Rightarrow> nat \<times> nat \<Rightarrow> nat \<times> nat" where
  "closenessLoop [] acc = acc"
| "closenessLoop (c # cs) (correct, totalN) =
     (if isCore c then closenessLoop cs (correct, totalN)
      else closenessLoop cs (if posOk c \<and> aligned c then correct + 1 else correct, totalN + 1))"

definition cubeRootChildren :: "session \<Rightarrow> cubelet list" where
  "cubeRootChildren s = filter (\<lambda>c. parent c = CubeRoot) (cubelets s)"

definition computeCloseness :: "session \<Rightarrow> real" where
  "computeCloseness s =
     (case closenessLoop (cubeRootChildren s) (0, 0) of (correct, totalN) \<Rightarrow>
        if totalN = 0 then 1 else max 0 (min 1 (real correct / real totalN)))"

section \<open>Buttons\<close>

definition faces :: "(axis \<times> int) list" where
  "faces = [(X, 1), (X, - 1), (Y, 1), (Y, - 1), (Z, 1), (Z, - 1)]"

text \<open>
  Scramble draws two \<^verbatim>\<open>Math.random()\<close> values in \<open>[0, 1)\<close> per turn; \<open>rnd i\<close> gives the
  pair of turn \<open>i\<close>.
\<close>

fun scrambleLoop :: "(nat \<Rightarrow> real \<times> real) \<Rightarrow> nat list \<Rightarrow> session \<Rightarrow> session" where
  "scrambleLoop rnd [] s = s"
| "scrambleLoop rnd (i # is) s =
     (let f = faces ! nat \<lfloor>fst (rnd i) * real (length faces)\<rfloor>;
          c = (snd (rnd i) < 1 / 2)
      in scrambleLoop rnd is
           (animateTurn \<lparr>axis = fst f, sign = snd f, cw = c, quarters = 1\<rparr> True s))"

definition btnScramble :: "(nat \<Rightarrow> real \<times> real) \<Rightarrow> session \<Rightarrow> session" where
  "btnScramble rnd s =
     (if isTurning s then s
      else (scrambleLoop rnd [0..<20] (s\<lparr>controlsEnabled := False, moveHistory := []\<rparr>))
             \<lparr>controlsEnabled := True\<rparr>)"

definition btnReset :: "session \<Rightarrow> session" where
  "btnReset s =
     (if isTurning s then s
      else s\<lparr>cubelets := buildSolvedCube, moveHistory := [], controlsEnabled := True,
             setupCount := 0, setupSequence := []\<rparr>)"

text \<open>The object \<^verbatim>\<open>inverse\<close> that Assemble builds from a recorded move.\<close>

definition inverseMove :: "move \<Rightarrow> move" where
  "inverseMove m = \<lparr>axis = axis m, sign = sign m, cw = (\<not> cw m), quarters = quarters m\<rparr>"

text \<open>The loop of Assemble: \<open>solveLoop (Suc i)\<close> is the iteration with index \<open>i\<close>.\<close>

fun solveLoop :: "nat \<Rightarrow> session \<Rightarrow> session" where
  "solveLoop 0 s = s"
| "solveLoop (Suc i) s =
     (let m = moveHistory s ! i
      in solveLoop i (animateTurn (inverseMove m) False s))"

definition btnSolve :: "session \<Rightarrow> session" where
  "btnSolve s =
     (if isTurning s \<or> length (moveHistory s) = 0 then s
      else (let s1 = s\<lparr>controlsEnabled := False, mode := Play\<rparr>;
                s2 = solveLoop (length (moveHistory s1)) s1
            in s2\<lparr>moveHistory := [], controlsEnabled := True\<rparr>))"

definition btnSetup :: "session \<Rightarrow> session" where
  "btnSetup s =
     (if isTurning s then s
      else if mode s \<noteq> Setup
        then s\<lparr>mode := Setup, setupCount := 0, setupSequence := [], moveHistory := []\<rparr>
        else s\<lparr>mode := Idle\<rparr>)"

definition btnPlay :: "session \<Rightarrow> session" where
  "btnPlay s = (if isTurning s then s else s\<lparr>mode := Play\<rparr>)"

section \<open>Binary64 arithmetic\<close>

text \<open>
  A finite double is the real number it stands for; \<open>round64\<close> rounds a real to the
  nearest number with a 53-bit significand, ties to the even significand. The exponent
  is not bounded: overflow and subnormal numbers are not modelled, and every value met
  below lies between \<open>2\<^sup>-\<^sup>1\<^sup>1\<^sup>0\<close> and 4 in magnitude or is zero. The two zeros of
  binary64 are one number here.
\<close>

definition pow2 :: "int \<Rightarrow> real" where
  "pow2 e = (if e \<ge> 0 then 2 ^ nat e else 1 / 2 ^ nat (- e))"

definition roundHalfEven :: "real \<Rightarrow> int" where
  "roundHalfEven y =
     (let f = \<lfloor>y\<rfloor>; r = y - real_of_int f
      in if r < 1 / 2 then f else if r > 1 / 2 then f + 1 else if even f then f else f + 1)"

definition round64 :: "real \<Rightarrow> real" where
  "round64 x =
     (if x = 0 then 0
      else (let e = \<lfloor>log 2 \<bar>x\<bar>\<rfloor> - 52
            in real_of_int (roundHalfEven (x / pow2 e)) * pow2 e))"

text \<open>The operators \<^verbatim>\<open>+\<close>, \<^verbatim>\<open>-\<close>, \<^verbatim>\<open>*\<close>, \<^verbatim>\<open>/\<close> of JavaScript on doubles, and \<^verbatim>\<open>Math.sqrt\<close>.\<close>

definition fadd :: "real \<Rightarrow> real \<Rightarrow> real" where
  "fadd a b = round64 (a + b)"

definition fsub :: "real \<Rightarrow> real \<Rightarrow> real" where
  "fsub a b = round64 (a - b)"

definition fmul :: "real \<Rightarrow> real \<Rightarrow> real" where
  "fmul a b = round64 (a * b)"

definition fdiv :: "real \<Rightarrow> real \<Rightarrow> real" where
  "fdiv a b = round64 (a / b)"

definition Math_sqrt :: "real \<Rightarrow> real" where
  "Math_sqrt x = round64 (sqrt x)"

text \<open>
  \<^verbatim>\<open>Math.PI\<close> is the double nearest to \<open>pi\<close>, 3.141592653589793. \<^verbatim>\<open>Math.sin\<close> and
  \<^verbatim>\<open>Math.cos\<close> are taken as correctly rounded; the turn calls them at a quarter of
  \<^verbatim>\<open>Math.PI\<close> and its negative only, where this gives 0.7071067811865475 for the
  sine and 0.7071067811865476 for the cosine.
\<close>

definition Math_PI :: real where
  "Math_PI = 884279719003555 / 2 ^ 48"

definition Math_sin :: "real \<Rightarrow> real" where
  "Math_sin x = round64 (sin x)"

definition Math_cos :: "real \<Rightarrow> real" where
  "Math_cos x = round64 (cos x)"

section \<open>Three.js transforms in binary64\<close>

text \<open>
  The methods of Three.js that \<^verbatim>\<open>Object3D.attach\<close> runs, with every operation
  rounded, in the order in which the library writes them. A \<^verbatim>\<open>Matrix4\<close> of an object
  is given by its three rotation columns and its translation column; its bottom row is
  \<open>(0, 0, 0, 1)\<close>.
\<close>

type_synonym mat4 = "vec3 \<times> vec3 \<times> vec3 \<times> vec3"

definition identityMatrix4 :: mat4 where
  "identityMatrix4 = ((1, 0, 0), (0, 1, 0), (0, 0, 1), (0, 0, 0))"

definition anglePerQuarter64 :: real where
  "anglePerQuarter64 = fdiv Math_PI 2"

definition targetAngle64 :: "bool \<Rightarrow> nat \<Rightarrow> real" where
  "targetAngle64 c q = fmul (if c then - anglePerQuarter64 else anglePerQuarter64) (max 1 (real q))"

fun setFromAxisAngle64 :: "vec3 \<Rightarrow> real \<Rightarrow> quat" where
  "setFromAxisAngle64 (ax, ay, az) angle =
     (let halfAngle = fdiv angle 2; s = Math_sin halfAngle
      in (fmul ax s, fmul ay s, fmul az s, Math_cos halfAngle))"

fun multiplyQuaternions64 :: "quat \<Rightarrow> quat \<Rightarrow> quat" where
  "multiplyQuaternions64 (qax, qay, qaz, qaw) (qbx, qby, qbz, qbw) =
     (fsub (fadd (fadd (fmul qax qbw) (fmul qaw qbx)) (fmul qay qbz)) (fmul qaz qby),
      fsub (fadd (fadd (fmul qay qbw) (fmul qaw qby)) (fmul qaz qbx)) (fmul qax qbz),
      fsub (fadd (fadd (fmul qaz qbw) (fmul qaw qbz)) (fmul qax qby)) (fmul qay qbx),
      fsub (fsub (fsub (fmul qaw qbw) (fmul qax qbx)) (fmul qay qby)) (fmul qaz qbz))"

text \<open>\<^verbatim>\<open>Matrix4.compose(position, quaternion, scale)\<close>.\<close>

fun compose64 :: "vec3 \<Rightarrow> quat \<Rightarrow> vec3 \<Rightarrow> mat4" where
  "compose64 p (x, y, z, w) (sx, sy, sz) =
     (let x2 = fadd x x; y2 = fadd y y; z2 = fadd z z;
          xx = fmul x x2; xy = fmul x y2; xz = fmul x z2;
          yy = fmul y y2; yz = fmul y z2; zz = fmul z z2;
          wx = fmul w x2; wy = fmul w y2; wz = fmul w z2
      in ((fmul (fsub 1 (fadd yy zz)) sx, fmul (fadd xy wz) sx, fmul (fsub xz wy) sx),
          (fmul (fsub xy wz) sy, fmul (fsub 1 (fadd xx zz)) sy, fmul (fadd yz wx) sy),
          (fmul (fadd xz wy) sz, fmul (fsub yz wx) sz, fmul (fsub 1 (fadd xx yy)) sz),
          p))"

text \<open>
  \<^verbatim>\<open>Matrix4.multiplyMatrices(a, b)\<close>: an entry is a row of \<open>a\<close> times a column of \<open>b\<close>,
  summed from left to right; the last argument of \<open>row4\<close> is the bottom entry of the
  column.
\<close>

fun row4 :: "real \<times> real \<times> real \<times> real \<Rightarrow> vec3 \<Rightarrow> real \<Rightarrow> real" where
  "row4 (a1, a2, a3, a4) (b1, b2, b3) b4 =
     fadd (fadd (fadd (fmul a1 b1) (fmul a2 b2)) (fmul a3 b3)) (fmul a4 b4)"

fun multiplyMatrices64 :: "mat4 \<Rightarrow> mat4 \<Rightarrow> mat4" where
  "multiplyMatrices64 ((a11, a21, a31), (a12, a22, a32), (a13, a23, a33), (a14, a24, a34))
       (b1, b2, b3, b4) =
     (let r1 = (a11, a12, a13, a14); r2 = (a21, a22, a23, a24); r3 = (a31, a32, a33, a34)
      in ((row4 r1 b1 0, row4 r2 b1 0, row4 r3 b1 0),
          (row4 r1 b2 0, row4 r2 b2 0, row4 r3 b2 0),
          (row4 r1 b3 0, row4 r2 b3 0, row4 r3 b3 0),
          (row4 r1 b4 1, row4 r2 b4 1, row4 r3 b4 1)))"

text \<open>\<^verbatim>\<open>Vector3.length\<close>, which \<^verbatim>\<open>decompose\<close> calls on each rotation column.\<close>

fun length64 :: "vec3 \<Rightarrow> real" where
  "length64 (x, y, z) = Math_sqrt (fadd (fadd (fmul x x) (fmul y y)) (fmul z z))"

text \<open>
  \<^verbatim>\<open>Matrix4.determinant\<close>: of its four cofactor sums the first three are multiplied by
  the zeros of the bottom row and the last by its 1, so the last one is the result.
\<close>

fun determinant64 :: "mat4 \<Rightarrow> real" where
  "determinant64 ((n11, n21, n31), (n12, n22, n32), (n13, n23, n33), t) =
     fadd (fsub (fadd (fadd (fsub (fmul (fmul (- n13) n22) n31) (fmul (fmul n11 n23) n32))
                        (fmul (fmul n11 n22) n33))
                  (fmul (fmul n13 n21) n32))
            (fmul (fmul n12 n21) n33))
       (fmul (fmul n12 n23) n31)"

text \<open>\<^verbatim>\<open>Quaternion.setFromRotationMatrix\<close>, with its four branches.\<close>

fun setFromRotationMatrix64 :: "mat3 \<Rightarrow> quat" where
  "setFromRotationMatrix64 ((m11, m21, m31), (m12, m22, m32), (m13, m23, m33)) =
     (let trace = fadd (fadd m11 m22) m33
      in if trace > 0 then
           (let s = fdiv (1 / 2) (Math_sqrt (fadd trace 1))
            in (fmul (fsub m32 m23) s, fmul (fsub m13 m31) s, fmul (fsub m21 m12) s,
                fdiv (1 / 4) s))
         else if m11 > m22 \<and> m11 > m33 then
           (let s = fmul 2 (Math_sqrt (fsub (fsub (fadd 1 m11) m22) m33))
            in (fmul (1 / 4) s, fdiv (fadd m12 m21) s, fdiv (fadd m13 m31) s,
                fdiv (fsub m32 m23) s))
         else if m22 > m33 then
           (let s = fmul 2 (Math_sqrt (fsub (fsub (fadd 1 m22) m11) m33))
            in (fdiv (fadd m12 m21) s, fmul (1 / 4) s, fdiv (fadd m23 m32) s,
                fdiv (fsub m13 m31) s))
         else
           (let s = fmul 2 (Math_sqrt (fsub (fsub (fadd 1 m33) m11) m22))
            in (fdiv (fadd m13 m31) s, fdiv (fadd m23 m32) s, fmul (1 / 4) s,
                fdiv (fsub m21 m12) s)))"

fun scaleColumn64 :: "vec3 \<Rightarrow> real \<Rightarrow> vec3" where
  "scaleColumn64 (x, y, z) k = (fmul x k, fmul y k, fmul z k)"

text \<open>
  \<^verbatim>\<open>Matrix4.decompose\<close>: the translation column, the quaternion of the rotation columns
  divided by their lengths, and the lengths as scale.
\<close>

fun decompose64 :: "mat4 \<Rightarrow> vec3 \<times> quat \<times> vec3" where
  "decompose64 (c1, c2, c3, t) =
     (let sx0 = length64 c1; sy = length64 c2; sz = length64 c3;
          det = determinant64 (c1, c2, c3, t);
          sx = (if det < 0 then - sx0 else sx0);
          invSX = fdiv 1 sx; invSY = fdiv 1 sy; invSZ = fdiv 1 sz
      in (t,
          setFromRotationMatrix64
            (scaleColumn64 c1 invSX, scaleColumn64 c2 invSY, scaleColumn64 c3 invSZ),
          (sx, sy, sz)))"

section \<open>The turn in binary64\<close>

text \<open>
  A cubelet with the fields of the mesh that a turn reads and writes: the local position,
  the quaternion and the scale. Which parent it hangs under is not kept: the turn below
  is a whole awaited turn, from one rest state to the next.
\<close>

record mesh =
  meshHome :: vec3
  meshPosition :: vec3
  meshQuaternion :: quat
  meshScale :: vec3

definition newMesh :: "int \<Rightarrow> int \<Rightarrow> int \<Rightarrow> mesh" where
  "newMesh xi yi zi =
     \<lparr>meshHome = (real_of_int xi, real_of_int yi, real_of_int zi),
      meshPosition = (real_of_int xi, real_of_int yi, real_of_int zi),
      meshQuaternion = identityQuaternion,
      meshScale = (1, 1, 1)\<rparr>"

definition buildSolvedCube64 :: "mesh list" where
  "buildSolvedCube64 =
     concat (map (\<lambda>xi. concat (map (\<lambda>yi. map (\<lambda>zi. newMesh xi yi zi)
       [- 1, 0, 1]) [- 1, 0, 1])) [- 1, 0, 1])"

text \<open>\<^verbatim>\<open>Object3D.updateMatrix\<close>: the local matrix, composed anew from the three fields.\<close>

definition updateMatrix64 :: "mesh \<Rightarrow> mat4" where
  "updateMatrix64 c = compose64 (meshPosition c) (meshQuaternion c) (meshScale c)"

text \<open>
  \<^verbatim>\<open>Object3D.applyMatrix4\<close>, the core of \<^verbatim>\<open>attach\<close>: update the local matrix, multiply
  it from the left by \<open>m\<close>, decompose the product into the three fields.
\<close>

definition applyMatrix4_64 :: "mat4 \<Rightarrow> mesh \<Rightarrow> mesh" where
  "applyMatrix4_64 m c =
     (case decompose64 (multiplyMatrices64 m (updateMatrix64 c)) of
        (p, q, s) \<Rightarrow> c\<lparr>meshPosition := p, meshQuaternion := q, meshScale := s\<rparr>)"

text \<open>
  \<^verbatim>\<open>attachPreserve(c, group)\<close>: \<^verbatim>\<open>attach\<close> applies the inverse of the world matrix of
  the new parent times the world matrix of the old one. The scene, \<^verbatim>\<open>cubeRoot\<close> and the
  fresh group carry the identity transform, so both factors are the identity matrix.
\<close>

definition attachPreserve64 :: "mesh \<Rightarrow> mesh" where
  "attachPreserve64 c = applyMatrix4_64 (multiplyMatrices64 identityMatrix4 identityMatrix4) c"

text \<open>
  \<^verbatim>\<open>detachPreserve(c, cubeRoot)\<close> on the last frame, when the group has the quaternion
  \<open>q\<close>: the world matrix of the group is the world matrix of \<^verbatim>\<open>cubeRoot\<close> times the
  local matrix of the group, and \<^verbatim>\<open>attach\<close> multiplies it by the inverse of the world
  matrix of \<^verbatim>\<open>cubeRoot\<close>.
\<close>

definition groupMatrixWorld64 :: "quat \<Rightarrow> mat4" where
  "groupMatrixWorld64 q = multiplyMatrices64 identityMatrix4 (compose64 (0, 0, 0) q (1, 1, 1))"

definition detachPreserve64 :: "quat \<Rightarrow> mesh \<Rightarrow> mesh" where
  "detachPreserve64 q c =
     applyMatrix4_64 (multiplyMatrices64 identityMatrix4 (groupMatrixWorld64 q)) c"

definition snapToGrid64 :: "mesh \<Rightarrow> mesh" where
  "snapToGrid64 c =
     (case meshPosition c of (x, y, z) \<Rightarrow>
        c\<lparr>meshPosition := (real_of_int (Math_round x), real_of_int (Math_round y),
                           real_of_int (Math_round z))\<rparr>)"

definition selectLayer64 :: "axis \<Rightarrow> int \<Rightarrow> mesh list \<Rightarrow> mesh list" where
  "selectLayer64 ax sg cs = filter (\<lambda>c. roundedIndex (component (meshPosition c) ax) = sg) cs"

definition endQuat64 :: "move \<Rightarrow> quat" where
  "endQuat64 m =
     (let turnAxis = vectorForAxis (axis m) (sign m);
          startQuat = identityQuaternion
      in multiplyQuaternions64 startQuat
           (setFromAxisAngle64 turnAxis (targetAngle64 (cw m) (quarters m))))"

text \<open>
  What an awaited \<^verbatim>\<open>animateTurn\<close> that passes its guard does to the cubelets: the
  selected layer is attached to the group, and on the last frame, where the group has
  the end quaternion, each child is detached and snapped.
\<close>

definition animateTurn64 :: "move \<Rightarrow> mesh list \<Rightarrow> mesh list" where
  "animateTurn64 m cs =
     (let layerCubelets = selectLayer64 (axis m) (sign m) cs;
          q = endQuat64 m
      in map (\<lambda>c. if c \<in> set layerCubelets
                   then snapToGrid64 (detachPreserve64 q (attachPreserve64 c)) else c) cs)"

section \<open>Notions used to state the properties\<close>

text \<open>The rotation about a coordinate axis with cosine \<open>c\<close> and sine \<open>s\<close>, by columns.\<close>

definition axisRotation :: "axis \<Rightarrow> real \<Rightarrow> real \<Rightarrow> mat3" where
  "axisRotation ax c s =
     (case ax of
        X \<Rightarrow> ((1, 0, 0), (0, c, s), (0, - s, c))
      | Y \<Rightarrow> ((c, 0, - s), (0, 1, 0), (s, 0, c))
      | Z \<Rightarrow> ((c, s, 0), (- s, c, 0), (0, 0, 1)))"

text \<open>
  The matrix of the group on the last frame of the turn \<open>m\<close>, as \<open>animateTurn\<close> computes
  it, in exact arithmetic.
\<close>

definition turnMatrix :: "move \<Rightarrow> mat3" where
  "turnMatrix m =
     makeRotationFromQuaternion
       (multiplyQuaternions identityQuaternion
          (setFromAxisAngle (vectorForAxis (axis m) (sign m)) (targetAngle (cw m) (quarters m))))"

definition quarterPairs :: "(real \<times> real) set" where
  "quarterPairs = {(1, 0), (0, 1), (- 1, 0), (0, - 1)}"

definition isInteger :: "real \<Rightarrow> bool" where
  "isInteger x = (real_of_int \<lfloor>x\<rfloor> = x)"

definition snapped :: "vec3 \<Rightarrow> bool" where
  "snapped v = (case v of (x, y, z) \<Rightarrow> isInteger x \<and> isInteger y \<and> isInteger z)"

text \<open>What one whole turn does to one cubelet that hangs under \<^verbatim>\<open>cubeRoot\<close>.\<close>

definition turnCubelet :: "move \<Rightarrow> cubelet \<Rightarrow> cubelet" where
  "turnCubelet m c =
     (if roundedIndex (component (position c) (axis m)) = sign m
      then snapToGrid (detachPreserve (turnMatrix m) c) else c)"

text \<open>
  A rest state: no turn in flight, every cubelet under \<^verbatim>\<open>cubeRoot\<close> and on integer
  coordinates.
\<close>

definition restCubelets :: "cubelet list \<Rightarrow> bool" where
  "restCubelets cs = list_all (\<lambda>c. parent c = CubeRoot \<and> snapped (position c)) cs"

definition atRest :: "session \<Rightarrow> bool" where
  "atRest s = (\<not> isTurning s \<and> restCubelets (cubelets s))"

text \<open>A finite sequence of awaited turns, each with its \<open>record\<close> flag.\<close>

fun runTurns :: "(move \<times> bool) list \<Rightarrow> session \<Rightarrow> session" where
  "runTurns [] s = s"
| "runTurns ((m, rec) # ts) s = runTurns ts (animateTurn m rec s)"

text \<open>The cubelets after a list of whole turns.\<close>

fun turnAll :: "move list \<Rightarrow> cubelet list \<Rightarrow> cubelet list" where
  "turnAll [] cs = cs"
| "turnAll (m # ms) cs = turnAll ms (map (turnCubelet m) cs)"

text \<open>The 27 cells \<open>{-1, 0, 1}\<^sup>3\<close>.\<close>

definition lattice :: "vec3 set" where
  "lattice = {- 1, 0, 1} \<times> {- 1, 0, 1} \<times> {- 1, 0, 1}"

definition unitEntry :: "real \<Rightarrow> bool" where
  "unitEntry x = (x = - 1 \<or> x = 0 \<or> x = 1)"

fun unitEntries :: "vec3 \<Rightarrow> bool" where
  "unitEntries (x, y, z) = (unitEntry x \<and> unitEntry y \<and> unitEntry z)"

text \<open>
  A pure rotation by multiples of 90 degrees: a matrix with entries in \<open>{-1, 0, 1}\<close>,
  orthonormal columns and determinant 1 (one of the 24 rotations of the cube).
\<close>

definition det3 :: "mat3 \<Rightarrow> real" where
  "det3 g = (case g of (a, b, c) \<Rightarrow> dot a (crossVectors b c))"

definition isCubeRotation :: "mat3 \<Rightarrow> bool" where
  "isCubeRotation g =
     (case g of (a, b, c) \<Rightarrow>
        unitEntries a \<and> unitEntries b \<and> unitEntries c
        \<and> dot a a = 1 \<and> dot b b = 1 \<and> dot c c = 1
        \<and> dot a b = 0 \<and> dot a c = 0 \<and> dot b c = 0
        \<and> det3 g = 1)"

text \<open>What one whole turn does to the position of a cubelet.\<close>

definition posTurn :: "move \<Rightarrow> vec3 \<Rightarrow> vec3" where
  "posTurn m p =
     (if roundedIndex (component p (axis m)) = sign m
      then (case applyMatrix3 (turnMatrix m) p of (x, y, z) \<Rightarrow>
              (real_of_int (Math_round x), real_of_int (Math_round y), real_of_int (Math_round z)))
      else p)"

text \<open>
  Closeness as the comment above \<^verbatim>\<open>computeCloseness\<close> and the specification word it:
  a cubelet counts when it is at its home position with its home orientation, the
  identity. Kept apart from \<open>computeCloseness\<close> to compare the two.
\<close>

definition correctBySpec :: "cubelet \<Rightarrow> bool" where
  "correctBySpec c = (position c = home c \<and> orientation c = identityMatrix)"

definition closenessBySpec :: "session \<Rightarrow> real" where
  "closenessBySpec s =
     (let nonCore = filter (\<lambda>c. \<not> isCore c) (cubeRootChildren s)
      in if length nonCore = 0 then 1
         else real (length (filter correctBySpec nonCore)) / real (length nonCore))"

text \<open>What one whole turn in binary64 does to one cubelet, and a list of such turns.\<close>

definition turnMesh64 :: "move \<Rightarrow> mesh \<Rightarrow> mesh" where
  "turnMesh64 m c =
     (if roundedIndex (component (meshPosition c) (axis m)) = sign m
      then snapToGrid64 (detachPreserve64 (endQuat64 m) (attachPreserve64 c)) else c)"

fun turnAll64 :: "move list \<Rightarrow> mesh list \<Rightarrow> mesh list" where
  "turnAll64 [] cs = cs"
| "turnAll64 (m # ms) cs = turnAll64 ms (animateTurn64 m cs)"

text \<open>
  A quarter turn of an outer face, as a drag, Scramble and Assemble request it, and the
  sine of its angle.
\<close>

definition isQuarterTurn :: "move \<Rightarrow> bool" where
  "isQuarterTurn m = (quarters m \<le> 1 \<and> (sign m = 1 \<or> sign m = - 1))"

definition quarterSine :: "move \<Rightarrow> real" where
  "quarterSine m = real_of_int (sign m) * (if cw m then - 1 else 1)"

text \<open>The rotation columns of the local matrix of a mesh, as \<^verbatim>\<open>updateMatrix\<close> computes them.\<close>

definition meshRotation :: "mesh \<Rightarrow> mat3" where
  "meshRotation c = (case updateMatrix64 c of (a, b, d, t) \<Rightarrow> (a, b, d))"

text \<open>Concrete inputs used below.\<close>

definition quarterTurnX :: move where
  "quarterTurnX = \<lparr>axis = X, sign = 1, cw = True, quarters = 1\<rparr>"

definition quarterTurnY :: move where
  "quarterTurnY = \<lparr>axis = Y, sign = 1, cw = True, quarters = 1\<rparr>"

text \<open>The solved cube after \<open>quarterTurnX\<close>: the nine cubelets with \<open>x = 1\<close> have moved.\<close>

definition afterQuarterTurnX :: "cubelet list" where
  "afterQuarterTurnX = [
     \<lparr>home = (- 1, - 1, - 1), position = (- 1, - 1, - 1), orientation = ((1, 0, 0), (0, 1, 0), (0, 0, 1)), parent = CubeRoot\<rparr>,
     \<lparr>home = (- 1, - 1, 0), position = (- 1, - 1, 0), orientation = ((1, 0, 0), (0, 1, 0), (0, 0, 1)), parent = CubeRoot\<rparr>,
     \<lparr>home = (- 1, - 1, 1), position = (- 1, - 1, 1), orientation = ((1, 0, 0), (0, 1, 0), (0, 0, 1)), parent = CubeRoot\<rparr>,
     \<lparr>home = (- 1, 0, - 1), position = (- 1, 0, - 1), orientation = ((1, 0, 0), (0, 1, 0), (0, 0, 1)), parent = CubeRoot\<rparr>,
     \<lparr>home = (- 1, 0, 0), position = (- 1, 0, 0), orientation = ((1, 0, 0), (0, 1, 0), (0, 0, 1)), parent = CubeRoot\<rparr>,
     \<lparr>home = (- 1, 0, 1), position = (- 1, 0, 1), orientation = ((1, 0, 0), (0, 1, 0), (0, 0, 1)), parent = CubeRoot\<rparr>,
     \<lparr>home = (- 1, 1, - 1), position = (- 1, 1, - 1), orientation = ((1, 0, 0), (0, 1, 0), (0, 0, 1)), parent = CubeRoot\<rparr>,
     \<lparr>home = (- 1, 1, 0), position = (- 1, 1, 0), orientation = ((1, 0, 0), (0, 1, 0), (0, 0, 1)), parent = CubeRoot\<rparr>,
     \<lparr>home = (- 1, 1, 1), position = (- 1, 1, 1), orientation = ((1, 0, 0), (0, 1, 0), (0, 0, 1)), parent = CubeRoot\<rparr>,
     \<lparr>home = (0, - 1, - 1), position = (0, - 1, - 1), orientation = ((1, 0, 0), (0, 1, 0), (0, 0, 1)), parent = CubeRoot\<rparr>,
     \<lparr>home = (0, - 1, 0), position = (0, - 1, 0), orientation = ((1, 0, 0), (0, 1, 0), (0, 0, 1)), parent = CubeRoot\<rparr>,
     \<lparr>home = (0, - 1, 1), position = (0, - 1, 1), orientation = ((1, 0, 0), (0, 1, 0), (0, 0, 1)), parent = CubeRoot\<rparr>,
     \<lparr>home = (0, 0, - 1), position = (0, 0, - 1), orientation = ((1, 0, 0), (0, 1, 0), (0, 0, 1)), parent = CubeRoot\<rparr>,
     \<lparr>home = (0, 0, 0), position = (0, 0, 0), orientation = ((1, 0, 0), (0, 1, 0), (0, 0, 1)), parent = CubeRoot\<rparr>,
     \<lparr>home = (0, 0, 1), position = (0, 0, 1), orientation = ((1, 0, 0), (0, 1, 0), (0, 0, 1)), parent = CubeRoot\<rparr>,
     \<lparr>home = (0, 1, - 1), position = (0, 1, - 1), orientation = ((1, 0, 0), (0, 1, 0), (0, 0, 1)), parent = CubeRoot\<rparr>,
     \<lparr>home = (0, 1, 0), position = (0, 1, 0), orientation = ((1, 0, 0), (0, 1, 0), (0, 0, 1)), parent = CubeRoot\<rparr>,
     \<lparr>home = (0, 1, 1), position = (0, 1, 1), orientation = ((1, 0, 0), (0, 1, 0), (0, 0, 1)), parent = CubeRoot\<rparr>,
     \<lparr>home = (1, - 1, - 1), position = (1, - 1, 1), orientation = ((1, 0, 0), (0, 0, - 1), (0, 1, 0)), parent = CubeRoot\<rparr>,
     \<lparr>home = (1, - 1, 0), position = (1, 0, 1), orientation = ((1, 0, 0), (0, 0, - 1), (0, 1, 0)), parent = CubeRoot\<rparr>,
     \<lparr>home = (1, - 1, 1), position = (1, 1, 1), orientation = ((1, 0, 0), (0, 0, - 1), (0, 1, 0)), parent = CubeRoot\<rparr>,
     \<lparr>home = (1, 0, - 1), position = (1, - 1, 0), orientation = ((1, 0, 0), (0, 0, - 1), (0, 1, 0)), parent = CubeRoot\<rparr>,
     \<lparr>home = (1, 0, 0), position = (1, 0, 0), orientation = ((1, 0, 0), (0, 0, - 1), (0, 1, 0)), parent = CubeRoot\<rparr>,
     \<lparr>home = (1, 0, 1), position = (1, 1, 0), orientation = ((1, 0, 0), (0, 0, - 1), (0, 1, 0)), parent = CubeRoot\<rparr>,
     \<lparr>home = (1, 1, - 1), position = (1, - 1, - 1), orientation = ((1, 0, 0), (0, 0, - 1), (0, 1, 0)), parent = CubeRoot\<rparr>,
     \<lparr>home = (1, 1, 0), position = (1, 0, - 1), orientation = ((1, 0, 0), (0, 0, - 1), (0, 1, 0)), parent = CubeRoot\<rparr>,
     \<lparr>home = (1, 1, 1), position = (1, 1, - 1), orientation = ((1, 0, 0), (0, 0, - 1), (0, 1, 0)), parent = CubeRoot\<rparr>]"

text \<open>A stray cubelet two cells out along the x axis.\<close>

definition strayCubelet :: cubelet where
  "strayCubelet = \<lparr>home = (1, 0, 0), position = (2, 0, 0),
       orientation = identityMatrix, parent = CubeRoot\<rparr>"

text \<open>A press on the front face (normal \<open>+z\<close>) of the solved cube, and the drag it starts.\<close>

definition faceDrag :: session where
  "faceDrag = onPointerDown \<lparr>hit = Some (0, 0, 1), planePoint = (0, 0, 1)\<rparr> initialSession"

definition faceDragInfo :: drag_info where
  "faceDragInfo = \<lparr>normal = (0, 0, 1), dragAxis = Z, dragSign = 1, startPoint = (0, 0, 1),
                    uVec = (1, 0, 0), vVec = (0, 1, 0)\<rparr>"

text \<open>
  The equations of the binary64 functions are unfolded where a value is computed, not
  by default.
\<close>

declare compose64.simps [simp del] multiplyMatrices64.simps [simp del] row4.simps [simp del]
  length64.simps [simp del] determinant64.simps [simp del]
  setFromRotationMatrix64.simps [simp del] decompose64.simps [simp del]
  setFromAxisAngle64.simps [simp del] multiplyQuaternions64.simps [simp del]

section \<open>Quarter turns are exact\<close>

lemma cos_sin_quarters: "(cos (pi / 2 * real n), sin (pi / 2 * real n)) \<in> quarterPairs"
proof (induction n)
  case 0
  show ?case by (simp add: quarterPairs_def)
next
  case (Suc n)
  have e: "pi / 2 * real (Suc n) = pi / 2 * real n + pi / 2"
    by (simp add: algebra_simps)
  have c: "cos (pi / 2 * real (Suc n)) = - sin (pi / 2 * real n)"
    unfolding e cos_add by simp
  have s: "sin (pi / 2 * real (Suc n)) = cos (pi / 2 * real n)"
    unfolding e sin_add by simp
  from Suc show ?case unfolding c s by (auto simp: quarterPairs_def)
qed

lemma rotation_of_axis_quaternion:
  assumes "sg = 1 \<or> sg = - 1"
  shows "makeRotationFromQuaternion
           (multiplyQuaternions identityQuaternion (setFromAxisAngle (vectorForAxis ax sg) t))
         = axisRotation ax (cos t) (real_of_int sg * sin t)"
proof -
  have c: "cos t + 2 * (sin (t / 2) * sin (t / 2)) = 1"
    using cos_double_sin [of "t / 2"] by (simp add: power2_eq_square)
  have s: "2 * (cos (t / 2) * sin (t / 2)) = sin t"
    using sin_double [of "t / 2"] by simp
  from assms show ?thesis
    by (cases ax) (auto simp: identityQuaternion_def axisRotation_def Let_def c s algebra_simps)
qed

lemma rotation_of_zero_axis:
  "makeRotationFromQuaternion
     (multiplyQuaternions identityQuaternion (setFromAxisAngle (vectorForAxis ax 0) t))
   = axisRotation ax 1 0"
  by (cases ax) (simp_all add: identityQuaternion_def axisRotation_def Let_def)


lemma Math_round_of_int [simp]: "Math_round (real_of_int n) = n"
  unfolding Math_round_def by linarith

lemma Math_round_minus_of_int [simp]: "Math_round (- real_of_int n) = - n"
  using Math_round_of_int [of "- n"] by simp

lemma Math_round_numerals [simp]:
  "Math_round 0 = 0" "Math_round 1 = 1" "Math_round (- 1) = - 1"
  "Math_round (numeral k) = numeral k" "Math_round (- numeral k) = - numeral k"
  using Math_round_of_int [of 0] Math_round_of_int [of 1] Math_round_of_int [of "- 1"]
    Math_round_of_int [of "numeral k"] Math_round_of_int [of "- numeral k"]
  by simp_all

lemma roundedIndex_numerals [simp]:
  "roundedIndex 0 = 0" "roundedIndex 1 = 1" "roundedIndex (- 1) = - 1"
  by (simp_all add: roundedIndex_def)

lemma quarterTurnX_fields [simp]: "axis quarterTurnX = X" "sign quarterTurnX = 1"
  by (simp_all add: quarterTurnX_def)

lemma isIntegerE: "isInteger x \<Longrightarrow> (\<And>n. x = real_of_int n \<Longrightarrow> P) \<Longrightarrow> P"
  unfolding isInteger_def by metis

lemma isInteger_of_int [simp]: "isInteger (real_of_int n)"
  by (simp add: isInteger_def)

lemma roundedIndex_range: "roundedIndex x \<in> {- 1, 0, 1}"
  unfolding roundedIndex_def Let_def by auto

lemma quarterPairs_neg: "(c, s) \<in> quarterPairs \<Longrightarrow> (c, - s) \<in> quarterPairs"
  by (auto simp: quarterPairs_def)

lemma targetAngle_eq:
  "targetAngle c q = (if c then - (pi / 2 * real (max 1 q)) else pi / 2 * real (max 1 q))"
  by (simp add: targetAngle_def anglePerQuarter_def max_def)

lemma turnMatrix_quarter:
  assumes "sign m \<in> {- 1, 0, 1}"
  shows "\<exists>c s. (c, s) \<in> quarterPairs \<and> turnMatrix m = axisRotation (axis m) c s
           \<and> turnMatrix (inverseMove m) = axisRotation (axis m) c (- s)"
proof -
  define n where "n = max 1 (quarters m)"
  define C where "C = cos (pi / 2 * real n)"
  define S where "S = sin (pi / 2 * real n)"
  have q: "(C, S) \<in> quarterPairs"
    unfolding C_def S_def by (rule cos_sin_quarters)
  consider "sign m = 0" | "sign m = 1 \<or> sign m = - 1"
    using assms by auto
  then show ?thesis
  proof cases
    case 1
    have "(1, 0) \<in> quarterPairs" by (simp add: quarterPairs_def)
    moreover have "turnMatrix m = axisRotation (axis m) 1 0"
      unfolding turnMatrix_def 1 by (rule rotation_of_zero_axis)
    moreover have "turnMatrix (inverseMove m) = axisRotation (axis m) 1 (- 0)"
      unfolding turnMatrix_def inverseMove_def using 1 by (simp add: rotation_of_zero_axis)
    ultimately show ?thesis by blast
  next
    case 2
    have a: "turnMatrix m = axisRotation (axis m) C
               (real_of_int (sign m) * (if cw m then - S else S))"
      unfolding turnMatrix_def rotation_of_axis_quaternion [OF 2] targetAngle_eq
      by (simp add: C_def S_def n_def)
    have b: "turnMatrix (inverseMove m) = axisRotation (axis m) C
               (- (real_of_int (sign m) * (if cw m then - S else S)))"
      unfolding turnMatrix_def inverseMove_def using 2
      by (simp add: rotation_of_axis_quaternion targetAngle_eq C_def S_def n_def)
    have "(C, real_of_int (sign m) * (if cw m then - S else S)) \<in> quarterPairs"
      using 2 q quarterPairs_neg [OF q] by auto
    with a b show ?thesis by blast
  qed
qed

lemma component_axisRotation:
  "component (applyMatrix3 (axisRotation ax c s) p) ax = component p ax"
  by (cases p; cases ax) (simp_all add: axisRotation_def)

lemma turnCubelet_inverse:
  assumes "snapped (position c)" and "parent c = CubeRoot"
  shows "turnCubelet (inverseMove m) (turnCubelet m c) = c"
proof (cases "roundedIndex (component (position c) (axis m)) = sign m")
  case False
  then show ?thesis by (simp add: turnCubelet_def inverseMove_def)
next
  case True
  then have "sign m \<in> {- 1, 0, 1}" using roundedIndex_range by metis
  from turnMatrix_quarter [OF this] obtain co si where
    q: "(co, si) \<in> quarterPairs" and
    g: "turnMatrix m = axisRotation (axis m) co si" and
    g': "turnMatrix (inverseMove m) = axisRotation (axis m) co (- si)"
    by blast
  obtain px py pz where p: "position c = (px, py, pz)" by (cases "position c")
  from assms(1) p obtain a b d where
    abd: "px = real_of_int a" "py = real_of_int b" "pz = real_of_int d"
    by (auto simp: snapped_def elim!: isIntegerE)
  obtain c1 c2 c3 where o: "orientation c = (c1, c2, c3)" by (cases "orientation c")
  obtain x1 y1 z1 where c1: "c1 = (x1, y1, z1)" by (cases c1)
  obtain x2 y2 z2 where c2: "c2 = (x2, y2, z2)" by (cases c2)
  obtain x3 y3 z3 where c3: "c3 = (x3, y3, z3)" by (cases c3)
  have ax: "axis (inverseMove m) = axis m" "sign (inverseMove m) = sign m"
    by (simp_all add: inverseMove_def)
  from q True show ?thesis
    unfolding turnCubelet_def g g' ax
    by (cases "axis m")
       (auto simp: quarterPairs_def axisRotation_def snapToGrid_def detachPreserve_def
          p abd o c1 c2 c3 assms(2) [symmetric])
qed


section \<open>Whole turns on a rest state\<close>

lemma beginTurn_cubelets:
  "cubelets (beginTurn m r s) =
     map (\<lambda>c. if roundedIndex (component (position c) (axis m)) = sign m
               then attachPreserve c else c) (cubelets s)"
  by (simp add: beginTurn_def Let_def selectLayer_def)

lemma animateTurn_cubelets:
  assumes "\<not> isTurning s" and "list_all (\<lambda>c. parent c = CubeRoot) (cubelets s)"
  shows "cubelets (animateTurn m r s) = map (turnCubelet m) (cubelets s)"
proof -
  have "cubelets (completeTurn (beginTurn m r s)) =
          map (\<lambda>c. if parent c = TurnGroup then snapToGrid (detachPreserve (turnMatrix m) c) else c)
            (cubelets (beginTurn m r s))"
    by (simp add: completeTurn_def beginTurn_def Let_def turnMatrix_def)
  also have "\<dots> = map (turnCubelet m) (cubelets s)"
    unfolding beginTurn_cubelets map_map
  proof (rule map_cong [OF refl])
    fix c assume "c \<in> set (cubelets s)"
    with assms(2) have "parent c = CubeRoot" by (simp add: list_all_iff)
    then show "((\<lambda>c. if parent c = TurnGroup then snapToGrid (detachPreserve (turnMatrix m) c) else c) \<circ>
                (\<lambda>c. if roundedIndex (component (position c) (axis m)) = sign m
                      then attachPreserve c else c)) c = turnCubelet m c"
      by (simp add: turnCubelet_def attachPreserve_def detachPreserve_def)
  qed
  finally show ?thesis using assms(1) by (simp add: animateTurn_def)
qed

lemma animateTurn_fields:
  assumes "\<not> isTurning s"
  shows "moveHistory (animateTurn m r s) = (if r then moveHistory s @ [m] else moveHistory s)"
    and "mode (animateTurn m r s) = mode s"
    and "\<not> isTurning (animateTurn m r s)"
    and "setupCount (animateTurn m r s) = (if r \<and> mode s = Setup then setupCount s + 1 else setupCount s)"
  using assms by (simp_all add: animateTurn_def completeTurn_def beginTurn_def Let_def)

lemma snapped_snapToGrid: "snapped (position (snapToGrid c))"
  by (cases "position c") (simp add: snapToGrid_def snapped_def)

lemma parent_turnCubelet: "parent c = CubeRoot \<Longrightarrow> parent (turnCubelet m c) = CubeRoot"
  by (cases "position (detachPreserve (turnMatrix m) c)")
     (simp add: turnCubelet_def snapToGrid_def detachPreserve_def)

lemma snapped_turnCubelet: "snapped (position c) \<Longrightarrow> snapped (position (turnCubelet m c))"
  by (simp add: turnCubelet_def snapped_snapToGrid)

lemma atRest_animateTurn: "atRest s \<Longrightarrow> atRest (animateTurn m r s)"
proof -
  assume a: "atRest s"
  then have p: "list_all (\<lambda>c. parent c = CubeRoot) (cubelets s)"
    by (simp add: atRest_def restCubelets_def list_all_iff)
  from a show ?thesis
    by (auto simp: atRest_def restCubelets_def animateTurn_fields
        animateTurn_cubelets [OF _ p] list_all_iff parent_turnCubelet snapped_turnCubelet)
qed

lemma animateTurn_inverse_cubelets:
  assumes "atRest s"
  shows "cubelets (animateTurn (inverseMove m) r2 (animateTurn m r1 s)) = cubelets s"
proof -
  from assms have p: "list_all (\<lambda>c. parent c = CubeRoot) (cubelets s)" and n: "\<not> isTurning s"
    by (simp_all add: atRest_def restCubelets_def list_all_iff)
  have r: "atRest (animateTurn m r1 s)" by (rule atRest_animateTurn [OF assms])
  then have p': "list_all (\<lambda>c. parent c = CubeRoot) (cubelets (animateTurn m r1 s))"
    and n': "\<not> isTurning (animateTurn m r1 s)"
    by (simp_all add: atRest_def restCubelets_def list_all_iff)
  have "cubelets (animateTurn (inverseMove m) r2 (animateTurn m r1 s)) =
          map (turnCubelet (inverseMove m)) (map (turnCubelet m) (cubelets s))"
    by (simp add: animateTurn_cubelets [OF n' p'] animateTurn_cubelets [OF n p])
  also have "\<dots> = cubelets s"
    unfolding map_map
  proof (rule map_idI)
    fix c assume "c \<in> set (cubelets s)"
    with assms have "snapped (position c)" "parent c = CubeRoot"
      by (simp_all add: atRest_def restCubelets_def list_all_iff)
    then show "(turnCubelet (inverseMove m) \<circ> turnCubelet m) c = c"
      by (simp add: turnCubelet_inverse)
  qed
  finally show ?thesis .
qed







lemma cubelets_runTurns:
  "atRest s \<Longrightarrow> cubelets (runTurns ts s) = turnAll (map fst ts) (cubelets s)"
proof (induction ts s rule: runTurns.induct)
  case (1 s)
  then show ?case by simp
next
  case (2 m r ts s)
  from 2(2) have "cubelets (animateTurn m r s) = map (turnCubelet m) (cubelets s)"
    by (intro animateTurn_cubelets) (simp_all add: atRest_def restCubelets_def list_all_iff)
  with 2 show ?case by (simp add: atRest_animateTurn)
qed



lemma moveHistory_solveLoop:
  "\<not> isTurning s \<Longrightarrow> moveHistory (solveLoop n s) = moveHistory s"
  by (induction n arbitrary: s) (simp_all add: Let_def animateTurn_fields)




lemma newCubelet_rest:
  "parent (newCubelet x y z) = CubeRoot \<and> snapped (position (newCubelet x y z))"
  by (simp add: newCubelet_def snapped_def)


lemma buildSolvedCube_rest: "restCubelets buildSolvedCube"
  by (simp add: buildSolvedCube_def restCubelets_def newCubelet_rest)

section \<open>Assemble undoes the recorded turns\<close>



section \<open>Turns permute the lattice\<close>

lemma position_turnCubelet: "position (turnCubelet m c) = posTurn m (position c)"
  by (cases "applyMatrix3 (turnMatrix m) (position c)")
     (simp add: turnCubelet_def posTurn_def snapToGrid_def detachPreserve_def)

lemma posTurn_inverse:
  assumes "snapped p"
  shows "posTurn (inverseMove m) (posTurn m p) = p"
proof -
  let ?c = "\<lparr>home = p, position = p, orientation = identityMatrix, parent = CubeRoot\<rparr>"
  have "position (turnCubelet (inverseMove m) (turnCubelet m ?c)) = position ?c"
    using assms by (subst turnCubelet_inverse) simp_all
  then show ?thesis by (simp add: position_turnCubelet)
qed

lemma unitEntry_neg: "unitEntry x \<Longrightarrow> unitEntry (- x)"
  by (auto simp: unitEntry_def)

lemma unitEntry_of_int: "unitEntry x \<Longrightarrow> \<exists>n. x = real_of_int n"
proof -
  assume "unitEntry x"
  then consider "x = real_of_int (- 1)" | "x = real_of_int 0" | "x = real_of_int 1"
    by (auto simp: unitEntry_def)
  then show ?thesis by cases blast+
qed

lemma unitEntry_round: "unitEntry x \<Longrightarrow> real_of_int (Math_round x) = x"
  using unitEntry_of_int [of x] by auto

lemma unitEntry_round_neg: "unitEntry x \<Longrightarrow> real_of_int (Math_round (- x)) = - x"
  using unitEntry_round [OF unitEntry_neg] .

lemma lattice_iff: "p \<in> lattice \<longleftrightarrow> unitEntries p"
  by (cases p)
     (simp only: lattice_def mem_Sigma_iff unitEntries.simps unitEntry_def insert_iff
        empty_iff simp_thms)

lemma unitEntry_isInteger: "unitEntry x \<Longrightarrow> isInteger x"
  using unitEntry_of_int [of x] by auto

lemma lattice_snapped: "p \<in> lattice \<Longrightarrow> snapped p"
  by (cases p) (simp add: lattice_iff snapped_def unitEntry_isInteger)

lemma posTurn_lattice:
  assumes "p \<in> lattice"
  shows "posTurn m p \<in> lattice"
proof (cases "roundedIndex (component p (axis m)) = sign m")
  case False
  with assms show ?thesis by (simp add: posTurn_def)
next
  case True
  then have "sign m \<in> {- 1, 0, 1}" using roundedIndex_range by metis
  from turnMatrix_quarter [OF this] obtain co si where
    q: "(co, si) \<in> quarterPairs" and g: "turnMatrix m = axisRotation (axis m) co si"
    by blast
  obtain x y z where p: "p = (x, y, z)" by (cases p)
  from assms p have u: "unitEntry x" "unitEntry y" "unitEntry z"
    by (simp_all add: lattice_iff)
  from q True u show ?thesis
    unfolding posTurn_def g p lattice_iff
    by (cases "axis m")
       (auto simp: quarterPairs_def axisRotation_def unitEntry_round unitEntry_round_neg
          unitEntry_neg)
qed

lemma finite_lattice: "finite lattice"
  by (simp add: lattice_def)

lemma posTurn_inj: "inj_on (posTurn m) lattice"
  by (rule inj_on_inverseI [where g = "posTurn (inverseMove m)"])
     (simp add: posTurn_inverse lattice_snapped)

lemma posTurn_image: "posTurn m ` lattice = lattice"
proof (rule endo_inj_surj [OF finite_lattice])
  show "posTurn m ` lattice \<subseteq> lattice" using posTurn_lattice by blast
  show "inj_on (posTurn m) lattice" by (rule posTurn_inj)
qed

lemma posTurn_bij: "bij_betw (posTurn m) lattice lattice"
  by (simp add: bij_betw_def posTurn_inj posTurn_image)

lemma positions_turn:
  assumes "mset (map position cs) = mset_set lattice"
  shows "mset (map position (map (turnCubelet m) cs)) = mset_set lattice"
proof -
  have "map position (map (turnCubelet m) cs) = map (posTurn m) (map position cs)"
    by (simp add: position_turnCubelet)
  then have "mset (map position (map (turnCubelet m) cs)) =
               image_mset (posTurn m) (mset (map position cs))"
    by (simp only: mset_map)
  also have "\<dots> = mset_set (posTurn m ` lattice)"
    unfolding assms
    by (rule image_mset_mset_set) (rule posTurn_inj)
  finally show ?thesis by (simp add: posTurn_image)
qed


lemma isCubeRotation_axisRotation:
  assumes "(c, s) \<in> quarterPairs" and "isCubeRotation g"
  shows "isCubeRotation (multiplyMatrices (axisRotation ax c s) g)"
proof -
  obtain c1 c2 c3 where o: "g = (c1, c2, c3)" by (cases g)
  obtain x1 y1 z1 where c1: "c1 = (x1, y1, z1)" by (cases c1)
  obtain x2 y2 z2 where c2: "c2 = (x2, y2, z2)" by (cases c2)
  obtain x3 y3 z3 where c3: "c3 = (x3, y3, z3)" by (cases c3)
  from assms show ?thesis
    unfolding o c1 c2 c3
    by (cases ax)
       (auto simp: quarterPairs_def axisRotation_def isCubeRotation_def det3_def
          unitEntry_neg algebra_simps)
qed

lemma orientation_snapToGrid: "orientation (snapToGrid c) = orientation c"
  by (cases "position c") (simp add: snapToGrid_def)

lemma orientation_turnCubelet:
  assumes "isCubeRotation (orientation c)"
  shows "isCubeRotation (orientation (turnCubelet m c))"
proof (cases "roundedIndex (component (position c) (axis m)) = sign m")
  case False
  with assms show ?thesis by (simp add: turnCubelet_def)
next
  case True
  then have "sign m \<in> {- 1, 0, 1}" using roundedIndex_range by metis
  from turnMatrix_quarter [OF this] obtain co si where
    q: "(co, si) \<in> quarterPairs" and g: "turnMatrix m = axisRotation (axis m) co si"
    by blast
  from True show ?thesis
    by (simp add: turnCubelet_def orientation_snapToGrid detachPreserve_def g
        isCubeRotation_axisRotation [OF q assms])
qed

lemma isCubeRotation_identity: "isCubeRotation identityMatrix"
  by (simp add: isCubeRotation_def identityMatrix_def det3_def unitEntry_def)

lemma positions_solved: "mset (map position buildSolvedCube) = mset_set lattice"
proof -
  have d: "distinct (map position buildSolvedCube)"
    by (simp add: buildSolvedCube_def newCubelet_def)
  have "set (map position buildSolvedCube) = lattice"
    by (simp add: buildSolvedCube_def newCubelet_def lattice_def)
  then show ?thesis using mset_set_set [OF d] by simp
qed

lemma orientations_solved: "list_all (\<lambda>c. isCubeRotation (orientation c)) buildSolvedCube"
  by (simp add: buildSolvedCube_def newCubelet_def isCubeRotation_identity)

lemma turnAll_invariant:
  assumes "mset (map position cs) = mset_set lattice"
    and "list_all (\<lambda>c. isCubeRotation (orientation c)) cs"
  shows "mset (map position (turnAll ms cs)) = mset_set lattice
         \<and> list_all (\<lambda>c. isCubeRotation (orientation c)) (turnAll ms cs)"
  using assms
proof (induction ms arbitrary: cs)
  case Nil
  then show ?case by simp
next
  case (Cons m ms)
  have "mset (map position (map (turnCubelet m) cs)) = mset_set lattice"
    by (rule positions_turn [OF Cons.prems(1)])
  moreover have "list_all (\<lambda>c. isCubeRotation (orientation c)) (map (turnCubelet m) cs)"
    using Cons.prems(2) by (simp add: list_all_iff orientation_turnCubelet)
  ultimately show ?case unfolding turnAll.simps by (rule Cons.IH)
qed

lemma runTurns_invariant:
  assumes "cubelets s = buildSolvedCube" and "\<not> isTurning s"
  shows "mset (map position (cubelets (runTurns ts s))) = mset_set lattice
         \<and> list_all (\<lambda>c. isCubeRotation (orientation c)) (cubelets (runTurns ts s))"
proof -
  have a: "atRest s"
    using assms buildSolvedCube_rest by (simp add: atRest_def)
  show ?thesis
    unfolding cubelets_runTurns [OF a] assms(1)
    by (rule turnAll_invariant [OF positions_solved orientations_solved])
qed

section \<open>Assemble: empty history and mode\<close>

text \<open>
  Claim C9. Assemble with an empty move history returns at its guard: the session is left
  exactly as it was (cubelets, history, mode, setup counter and every other field).
\<close>

theorem assemble_empty_history_noop: "moveHistory s = [] \<Longrightarrow> btnSolve s = s"
  by (simp add: btnSolve_def)

theorem assemble_empty_history_noop_witness:
  "moveHistory initialSession = [] \<and> btnSolve initialSession = initialSession"
  using assemble_empty_history_noop [of initialSession] by (simp add: initialSession_def)

lemma mode_animateTurn: "mode (animateTurn m r s) = mode s"
  by (simp add: animateTurn_def completeTurn_def beginTurn_def Let_def)

lemma mode_solveLoop: "mode (solveLoop n s) = mode s"
  by (induction n arbitrary: s) (simp_all add: Let_def mode_animateTurn)

text \<open>
  Claim C10. When no turn is in flight and the history is not empty, Assemble first sets
  the mode to \<open>Play\<close> (whatever it was), replays the inverted history from that state,
  and the mode is \<open>Play\<close> when it completes; no turn changes the mode (\<open>mode_animateTurn\<close>).
\<close>

theorem assemble_sets_play_mode:
  assumes "\<not> isTurning s" and "moveHistory s \<noteq> []"
  shows "btnSolve s =
           (solveLoop (length (moveHistory s)) (s\<lparr>controlsEnabled := False, mode := Play\<rparr>))
             \<lparr>moveHistory := [], controlsEnabled := True\<rparr>
         \<and> mode (s\<lparr>controlsEnabled := False, mode := Play\<rparr>) = Play
         \<and> mode (btnSolve s) = Play"
  using assms by (simp add: btnSolve_def Let_def mode_solveLoop)

theorem assemble_sets_play_mode_witness:
  "\<not> isTurning (animateTurn \<lparr>axis = X, sign = 1, cw = True, quarters = 1\<rparr> True (btnSetup initialSession))
   \<and> moveHistory (animateTurn \<lparr>axis = X, sign = 1, cw = True, quarters = 1\<rparr> True (btnSetup initialSession)) \<noteq> []
   \<and> mode (animateTurn \<lparr>axis = X, sign = 1, cw = True, quarters = 1\<rparr> True (btnSetup initialSession)) = Setup
   \<and> mode (btnSolve (animateTurn \<lparr>axis = X, sign = 1, cw = True, quarters = 1\<rparr> True (btnSetup initialSession))) = Play"
proof -
  let ?s = "animateTurn \<lparr>axis = X, sign = 1, cw = True, quarters = 1\<rparr> True (btnSetup initialSession)"
  have n: "\<not> isTurning (btnSetup initialSession)"
    by (simp add: btnSetup_def initialSession_def)
  have a: "\<not> isTurning ?s" by (rule animateTurn_fields(3) [OF n])
  have b: "moveHistory ?s \<noteq> []" by (simp add: animateTurn_fields(1) [OF n])
  have c: "mode ?s = Setup" by (simp add: mode_animateTurn btnSetup_def initialSession_def)
  have d: "mode (btnSolve ?s) = Play"
    using assemble_sets_play_mode [OF a b] by blast
  from a b c d show ?thesis by blast
qed

section \<open>Requests while a turn is in flight\<close>

text \<open>
  Claim C7. While a turn is in flight (\<open>isTurning\<close>), every turn request is rejected
  without effect: a direct call of \<open>animateTurn\<close>, a double click, Scramble and Assemble
  leave the session as it is, and a drag release changes neither the cubelets, the move
  history, the setup counter nor the mode.
\<close>

theorem turn_request_in_flight_rejected:
  assumes "isTurning s"
  shows "animateTurn m r s = s
         \<and> onDoubleClick e s = s
         \<and> cubelets (onPointerUp e s) = cubelets s
         \<and> moveHistory (onPointerUp e s) = moveHistory s
         \<and> setupCount (onPointerUp e s) = setupCount s
         \<and> mode (onPointerUp e s) = mode s
         \<and> onPointerDown e s = s
         \<and> btnScramble rnd s = s
         \<and> btnSolve s = s"
  using assms
  by (simp add: animateTurn_def onDoubleClick_def onPointerUp_def onPointerDown_def
      btnScramble_def btnSolve_def Let_def split: option.splits)

theorem turn_request_in_flight_rejected_witness:
  "isTurning (beginTurn \<lparr>axis = X, sign = 1, cw = True, quarters = 1\<rparr> True initialSession)
   \<and> animateTurn \<lparr>axis = Y, sign = - 1, cw = False, quarters = 2\<rparr> True
        (beginTurn \<lparr>axis = X, sign = 1, cw = True, quarters = 1\<rparr> True initialSession)
     = beginTurn \<lparr>axis = X, sign = 1, cw = True, quarters = 1\<rparr> True initialSession"
proof -
  have t: "isTurning (beginTurn \<lparr>axis = X, sign = 1, cw = True, quarters = 1\<rparr> True initialSession)"
    by (simp add: beginTurn_def Let_def)
  from t turn_request_in_flight_rejected [OF t] show ?thesis by blast
qed

section \<open>Drag release\<close>

text \<open>
  Claim C8. On a drag release on a picked face, with \<open>du\<close> and \<open>dv\<close> the components of the
  drag along \<open>uVec\<close> and \<open>vVec\<close>: below the threshold 0.18 no turn is requested (a
  click); otherwise, when \<open>|du| > |dv|\<close> the requested move has \<open>cw = (du > 0)\<close>, and when
  \<open>|dv| > |du|\<close> it has \<open>cw = (dv < 0)\<close>.
\<close>

theorem drag_release_direction:
  fixes s :: session and d :: drag_info and e :: pointer_event
  assumes "dragInfo s = Some d" and "isPointerDown s"
  defines "du \<equiv> dot (sub (planePoint e) (startPoint d)) (uVec d)"
    and "dv \<equiv> dot (sub (planePoint e) (startPoint d)) (vVec d)"
  shows "(max \<bar>du\<bar> \<bar>dv\<bar> < threshold \<longrightarrow>
            onPointerUp e s = s\<lparr>isPointerDown := False, dragInfo := None, controlsEnabled := True\<rparr>)
         \<and> (\<not> max \<bar>du\<bar> \<bar>dv\<bar> < threshold \<and> \<bar>du\<bar> > \<bar>dv\<bar> \<longrightarrow>
            onPointerUp e s =
              animateTurn \<lparr>axis = dragAxis d, sign = dragSign d, cw = (du > 0), quarters = 1\<rparr> True
                (s\<lparr>isPointerDown := False, dragInfo := None\<rparr>))
         \<and> (\<not> max \<bar>du\<bar> \<bar>dv\<bar> < threshold \<and> \<bar>dv\<bar> > \<bar>du\<bar> \<longrightarrow>
            onPointerUp e s =
              animateTurn \<lparr>axis = dragAxis d, sign = dragSign d, cw = (dv < 0), quarters = 1\<rparr> True
                (s\<lparr>isPointerDown := False, dragInfo := None\<rparr>))"
  using assms(1,2) unfolding du_def dv_def
  by (simp add: onPointerUp_def Let_def)

lemma faceDrag_state: "dragInfo faceDrag = Some faceDragInfo" "isPointerDown faceDrag"
  by (simp_all add: faceDrag_def faceDragInfo_def onPointerDown_def initialSession_def
      computeFaceBasis_def normalize_def lengthSq_def Math_sign_or_1_def Let_def)

theorem drag_release_direction_witness:
  "dragInfo faceDrag = Some faceDragInfo \<and> isPointerDown faceDrag
   \<and> onPointerUp \<lparr>hit = None, planePoint = (1 / 20, 1 / 10, 1)\<rparr> faceDrag
       = faceDrag\<lparr>isPointerDown := False, dragInfo := None, controlsEnabled := True\<rparr>
   \<and> onPointerUp \<lparr>hit = None, planePoint = (1 / 2, 1 / 10, 1)\<rparr> faceDrag
       = animateTurn \<lparr>axis = Z, sign = 1, cw = True, quarters = 1\<rparr> True
           (faceDrag\<lparr>isPointerDown := False, dragInfo := None\<rparr>)
   \<and> onPointerUp \<lparr>hit = None, planePoint = (1 / 10, 3 / 5, 1)\<rparr> faceDrag
       = animateTurn \<lparr>axis = Z, sign = 1, cw = False, quarters = 1\<rparr> True
           (faceDrag\<lparr>isPointerDown := False, dragInfo := None\<rparr>)"
  using faceDrag_state
    drag_release_direction [OF faceDrag_state, of "\<lparr>hit = None, planePoint = (1 / 20, 1 / 10, 1)\<rparr>"]
    drag_release_direction [OF faceDrag_state, of "\<lparr>hit = None, planePoint = (1 / 2, 1 / 10, 1)\<rparr>"]
    drag_release_direction [OF faceDrag_state, of "\<lparr>hit = None, planePoint = (1 / 10, 3 / 5, 1)\<rparr>"]
  by (simp add: faceDragInfo_def threshold_def)

section \<open>Layer selection\<close>

text \<open>
  Claim C6, amended. \<open>selectLayer ax sg\<close> returns, in order, exactly the cubelets whose
  current coordinate along \<open>ax\<close>, rounded to the nearest integer and then clamped into
  \<open>[-1, 1]\<close>, equals \<open>sg\<close>. A cubelet whose rounded coordinate lies beyond 1 (or below
  -1) is therefore put in the outer layer 1 (or -1), not left out.
\<close>

theorem select_layer_rounds_and_clamps:
  "selectLayer ax sg cs =
     filter (\<lambda>c. max (- 1) (min 1 (Math_round (component (position c) ax))) = sg) cs"
  unfolding selectLayer_def roundedIndex_def Let_def
  by (rule filter_cong [OF refl]) auto

theorem select_layer_excludes_counterexample:
  "Math_round (component (position strayCubelet) X) = 2
   \<and> (2 :: int) \<notin> {- 1, 0, 1}
   \<and> selectLayer X 1 [strayCubelet] = [strayCubelet]"
  by (simp add: selectLayer_def roundedIndex_def strayCubelet_def)

section \<open>Closeness after one quarter turn\<close>

lemma turnMatrix_quarterTurnX: "turnMatrix quarterTurnX = ((1, 0, 0), (0, 0, - 1), (0, 1, 0))"
proof -
  have "turnMatrix quarterTurnX = axisRotation X (cos (targetAngle True 1))
          (real_of_int 1 * sin (targetAngle True 1))"
    unfolding turnMatrix_def quarterTurnX_def move.simps
    by (rule rotation_of_axis_quaternion) simp
  then show ?thesis
    by (simp add: targetAngle_def anglePerQuarter_def axisRotation_def)
qed

lemma length_buildSolvedCube: "length buildSolvedCube = 27"
  by (simp add: buildSolvedCube_def)

lemma parents_solved: "list_all (\<lambda>c. parent c = CubeRoot) buildSolvedCube"
  using buildSolvedCube_rest by (simp add: restCubelets_def list_all_iff)

lemma cubelets_after_quarterTurnX:
  "cubelets (animateTurn quarterTurnX True initialSession) = map (turnCubelet quarterTurnX) buildSolvedCube"
  using animateTurn_cubelets [of initialSession quarterTurnX True] parents_solved
  by (simp add: initialSession_def)


lemma turn_quarterTurnX_solved: "map (turnCubelet quarterTurnX) buildSolvedCube = afterQuarterTurnX"
  by (simp add: buildSolvedCube_def newCubelet_def turnCubelet_def turnMatrix_quarterTurnX
      snapToGrid_def detachPreserve_def identityMatrix_def afterQuarterTurnX_def)

lemma closenessLoop_afterQuarterTurnX:
  "closenessLoop (filter (\<lambda>c. parent c = CubeRoot) afterQuarterTurnX) (0, 0) = (18, 26)"
  by (simp add: afterQuarterTurnX_def isCore_def posOk_def aligned_def axisAligned_def)

lemma closenessBySpec_afterQuarterTurnX:
  "length (filter (\<lambda>c. \<not> isCore c) (filter (\<lambda>c. parent c = CubeRoot) afterQuarterTurnX)) = 26"
  "length (filter correctBySpec (filter (\<lambda>c. \<not> isCore c)
     (filter (\<lambda>c. parent c = CubeRoot) afterQuarterTurnX))) = 17"
  by (simp_all add: afterQuarterTurnX_def isCore_def correctBySpec_def identityMatrix_def)

text \<open>
  The test \<open>aligned\<close> holds for every rotation of the cube, hence for every cubelet of
  every state reached from the solved cube: it never tells a turned cubelet from one
  in its home orientation.
\<close>

lemma unit_column_aligned: "unitEntries v \<Longrightarrow> dot v v = 1 \<Longrightarrow> axisAligned v"
  by (cases v) (auto simp: unitEntry_def axisAligned_def)

lemma aligned_of_cube_rotation:
  assumes "isCubeRotation (orientation c)"
  shows "aligned c"
proof -
  obtain a b d where o: "orientation c = (a, b, d)" by (cases "orientation c")
  obtain a1 a2 a3 where a: "a = (a1, a2, a3)" by (cases a)
  obtain b1 b2 b3 where b: "b = (b1, b2, b3)" by (cases b)
  obtain d1 d2 d3 where d: "d = (d1, d2, d3)" by (cases d)
  from assms have "axisAligned a" "axisAligned b" "axisAligned d"
    unfolding o isCubeRotation_def by (simp_all add: unit_column_aligned)
  then show ?thesis by (simp add: aligned_def o a b d)
qed

lemma aligned_on_reachable_states:
  assumes "cubelets s = buildSolvedCube" and "\<not> isTurning s"
  shows "list_all aligned (cubelets (runTurns ts s))"
  using runTurns_invariant [OF assms, of ts]
  by (simp add: list_all_iff aligned_of_cube_rotation)

text \<open>
  Claim C4. The claim counts a cubelet as correct only at its home position with the
  identity orientation. After one quarter turn of the face \<open>x = 1\<close> from the solved
  cube, the centre cubelet of that face (index 22, home \<open>(1, 0, 0)\<close>) is at home but
  turned by 90 degrees: \<open>computeCloseness\<close> counts it (the test \<open>aligned\<close> accepts
  every rotation of the cube) and returns 18/26, where the claim gives 17/26.
\<close>

theorem closeness_counts_rotated_centre:
  "computeCloseness (animateTurn quarterTurnX True initialSession) = 18 / 26
   \<and> closenessBySpec (animateTurn quarterTurnX True initialSession) = 17 / 26
   \<and> home (cubelets (animateTurn quarterTurnX True initialSession) ! 22) = (1, 0, 0)
   \<and> position (cubelets (animateTurn quarterTurnX True initialSession) ! 22) = (1, 0, 0)
   \<and> orientation (cubelets (animateTurn quarterTurnX True initialSession) ! 22)
       = ((1, 0, 0), (0, 0, - 1), (0, 1, 0))
   \<and> posOk (cubelets (animateTurn quarterTurnX True initialSession) ! 22)
   \<and> aligned (cubelets (animateTurn quarterTurnX True initialSession) ! 22)
   \<and> \<not> correctBySpec (cubelets (animateTurn quarterTurnX True initialSession) ! 22)"
proof -
  have c: "cubelets (animateTurn quarterTurnX True initialSession) = afterQuarterTurnX"
    by (simp add: cubelets_after_quarterTurnX turn_quarterTurnX_solved)
  have n: "afterQuarterTurnX ! 22 = \<lparr>home = (1, 0, 0), position = (1, 0, 0),
             orientation = ((1, 0, 0), (0, 0, - 1), (0, 1, 0)), parent = CubeRoot\<rparr>"
    by (simp add: afterQuarterTurnX_def)
  have 1: "computeCloseness (animateTurn quarterTurnX True initialSession) = 18 / 26"
    by (simp add: computeCloseness_def cubeRootChildren_def c closenessLoop_afterQuarterTurnX)
  have 2: "closenessBySpec (animateTurn quarterTurnX True initialSession) = 17 / 26"
    unfolding closenessBySpec_def cubeRootChildren_def c Let_def closenessBySpec_afterQuarterTurnX
    by simp
  have 3: "posOk (afterQuarterTurnX ! 22)" "aligned (afterQuarterTurnX ! 22)"
    "\<not> correctBySpec (afterQuarterTurnX ! 22)"
    unfolding n by (simp_all add: posOk_def aligned_def axisAligned_def correctBySpec_def
        identityMatrix_def)
  from 1 2 3 show ?thesis unfolding c n by simp
qed

section \<open>Rounding to binary64\<close>

lemma pow2_powr: "2 powr (real_of_int e) = pow2 e"
  by (simp add: powr_int pow2_def)

lemma pow2_pos: "0 < pow2 e"
  by (simp add: pow2_def)

lemma round64_binade:
  assumes "pow2 k \<le> \<bar>x\<bar>" and "\<bar>x\<bar> < pow2 (k + 1)"
  shows "round64 x = real_of_int (roundHalfEven (x / pow2 (k - 52))) * pow2 (k - 52)"
proof -
  have p: "0 < \<bar>x\<bar>" using assms(1) pow2_pos [of k] by linarith
  have "\<lfloor>log 2 \<bar>x\<bar>\<rfloor> = k"
    using assms p by (subst floor_log_eq_powr_iff) (simp_all add: pow2_powr [symmetric])
  with p show ?thesis by (simp add: round64_def Let_def)
qed

lemma roundHalfEven_near:
  assumes "\<bar>y - real_of_int n\<bar> < 1 / 2"
  shows "roundHalfEven y = n"
proof (cases "real_of_int n \<le> y")
  case True
  with assms have "\<lfloor>y\<rfloor> = n" by linarith
  with assms True show ?thesis by (simp add: roundHalfEven_def Let_def)
next
  case False
  with assms have f: "\<lfloor>y\<rfloor> = n - 1" by linarith
  from assms False have "y - real_of_int (n - 1) > 1 / 2" by simp
  with f show ?thesis by (simp add: roundHalfEven_def Let_def)
qed

lemma round64_near:
  assumes "pow2 k \<le> \<bar>x\<bar>" and "\<bar>x\<bar> < pow2 (k + 1)"
    and "\<bar>x / pow2 (k - 52) - real_of_int m\<bar> < 1 / 2"
  shows "round64 x = real_of_int m * pow2 (k - 52)"
  by (simp add: round64_binade [OF assms(1,2)] roundHalfEven_near [OF assms(3)])

lemma round64_repr:
  assumes "pow2 k \<le> \<bar>x\<bar>" and "\<bar>x\<bar> < pow2 (k + 1)"
    and "x / pow2 (k - 52) = real_of_int m"
  shows "round64 x = x"
proof -
  have "round64 x = real_of_int m * pow2 (k - 52)"
    using assms(3) by (intro round64_near [OF assms(1,2)]) simp
  also have "\<dots> = x"
    using pow2_pos [of "k - 52"] by (simp add: assms(3) [symmetric])
  finally show ?thesis .
qed

lemma roundHalfEven_tie:
  assumes "y = real_of_int f + 1 / 2"
  shows "roundHalfEven y = (if even f then f else f + 1)"
proof -
  from assms have "\<lfloor>y\<rfloor> = f" by linarith
  with assms show ?thesis by (simp add: roundHalfEven_def Let_def)
qed

lemma round64_tie:
  assumes "pow2 k \<le> \<bar>x\<bar>" and "\<bar>x\<bar> < pow2 (k + 1)"
    and "x / pow2 (k - 52) = real_of_int f + 1 / 2"
  shows "round64 x = real_of_int (if even f then f else f + 1) * pow2 (k - 52)"
  by (simp only: round64_binade [OF assms(1,2)] roundHalfEven_tie [OF assms(3)])

lemma round64_0 [simp]: "round64 0 = 0"
  by (simp add: round64_def)

section \<open>Sine and cosine at a quarter of Math.PI\<close>

text \<open>
  Twenty terms of the Maclaurin series bound \<open>sin\<close> and \<open>cos\<close> at
  \<^verbatim>\<open>Math.PI / 4\<close> closely enough to fix their nearest doubles.
\<close>

lemma sum20:
  "(\<Sum>m<20. f m) = f 0 + f 1 + f 2 + f 3 + f 4 + f 5 + f 6 + f 7 + f 8 + f 9 + f 10
     + f 11 + f 12 + f 13 + f 14 + f 15 + f 16 + f 17 + f 18 + (f (19 :: nat) :: real)"
  by (simp add: eval_nat_numeral)

lemma sin_coeffs:
  "sin_coeff 0 = 0" "sin_coeff 1 = 1" "sin_coeff 2 = 0" "sin_coeff 3 = - 1 / fact 3"
  "sin_coeff 4 = 0" "sin_coeff 5 = 1 / fact 5" "sin_coeff 6 = 0" "sin_coeff 7 = - 1 / fact 7"
  "sin_coeff 8 = 0" "sin_coeff 9 = 1 / fact 9" "sin_coeff 10 = 0" "sin_coeff 11 = - 1 / fact 11"
  "sin_coeff 12 = 0" "sin_coeff 13 = 1 / fact 13" "sin_coeff 14 = 0" "sin_coeff 15 = - 1 / fact 15"
  "sin_coeff 16 = 0" "sin_coeff 17 = 1 / fact 17" "sin_coeff 18 = 0" "sin_coeff 19 = - 1 / fact 19"
  by (simp_all add: sin_coeff_def fact_numeral)

lemma cos_coeffs:
  "cos_coeff 0 = 1" "cos_coeff 1 = 0" "cos_coeff 2 = - 1 / fact 2" "cos_coeff 3 = 0"
  "cos_coeff 4 = 1 / fact 4" "cos_coeff 5 = 0" "cos_coeff 6 = - 1 / fact 6" "cos_coeff 7 = 0"
  "cos_coeff 8 = 1 / fact 8" "cos_coeff 9 = 0" "cos_coeff 10 = - 1 / fact 10" "cos_coeff 11 = 0"
  "cos_coeff 12 = 1 / fact 12" "cos_coeff 13 = 0" "cos_coeff 14 = - 1 / fact 14" "cos_coeff 15 = 0"
  "cos_coeff 16 = 1 / fact 16" "cos_coeff 17 = 0" "cos_coeff 18 = - 1 / fact 18" "cos_coeff 19 = 0"
  by (simp_all add: cos_coeff_def fact_numeral)

lemma remainder20:
  assumes "\<bar>x\<bar> \<le> (1 :: real)"
  shows "inverse (fact 20) * \<bar>x\<bar> ^ 20 \<le> 1 / 2 ^ 60"
proof -
  have "\<bar>x\<bar> ^ 20 \<le> 1"
    using assms by (intro power_le_one) simp_all
  then have "inverse (fact 20) * \<bar>x\<bar> ^ 20 \<le> inverse (fact 20 :: real) * 1"
    by (intro mult_left_mono) simp_all
  also have "\<dots> \<le> 1 / 2 ^ 60"
    by (simp add: fact_numeral)
  finally show ?thesis .
qed

lemma Maclaurin_cos_bound20:
  "\<bar>cos x - (\<Sum>m<20. cos_coeff m * x ^ m)\<bar> \<le> inverse (fact 20) * \<bar>x\<bar> ^ 20"
proof -
  define P where "P = (\<Sum>m<20. cos_coeff m * x ^ m)"
  from Maclaurin_cos_expansion [of x 20] obtain t where
    "cos x = P + (cos (t + 1 / 2 * real 20 * pi) / fact 20) * x ^ 20"
    unfolding P_def by blast
  define u where "u = cos (t + 1 / 2 * real 20 * pi)"
  define y where "y = inverse (fact 20) * \<bar>x\<bar> ^ 20"
  have y: "0 \<le> y" by (simp add: y_def)
  have "cos x - P = (u / fact 20) * x ^ 20"
    using \<open>cos x = P + _\<close> by (simp add: u_def)
  moreover have f: "\<bar>inverse (fact 20 :: real)\<bar> = inverse (fact 20)" by simp
  ultimately have "\<bar>cos x - P\<bar> = \<bar>u\<bar> * y"
    by (simp only: abs_mult power_abs y_def divide_inverse mult.assoc)
  also have "\<dots> \<le> 1 * y"
    using y by (intro mult_right_mono) (simp_all add: u_def)
  finally show ?thesis by (simp add: P_def y_def)
qed

lemma sin_quarter_bounds:
  "12738103345051543 / 18014398509481984 < sin (Math_PI / 4)" "sin (Math_PI / 4) < 12738103345051545 / 18014398509481984"
proof -
  define x :: real where "x = 884279719003555 / 2 ^ 50"
  define P where "P = (\<Sum>m<20. sin_coeff m * x ^ m)"
  define R where "R = inverse (fact 20) * \<bar>x\<bar> ^ 20"
  have e: "Math_PI / 4 = x" by (simp add: Math_PI_def x_def)
  have b: "\<bar>sin x - P\<bar> \<le> R"
    unfolding P_def R_def by (rule Maclaurin_sin_bound)
  have r: "R \<le> 1 / 1152921504606846976"
    using remainder20 [of x] by (simp add: R_def x_def)
  have p: "\<bar>P - 6369051672525772 / 9007199254740992\<bar> < 60 / 1152921504606846976"
    unfolding P_def x_def sum20 sin_coeffs by (simp add: fact_numeral power_divide)
  from b r p show "12738103345051543 / 18014398509481984 < sin (Math_PI / 4)"
    unfolding e by linarith
  from b r p show "sin (Math_PI / 4) < 12738103345051545 / 18014398509481984"
    unfolding e by linarith
qed

lemma cos_quarter_bounds:
  "12738103345051545 / 18014398509481984 < cos (Math_PI / 4)" "cos (Math_PI / 4) < 12738103345051547 / 18014398509481984"
proof -
  define x :: real where "x = 884279719003555 / 2 ^ 50"
  define P where "P = (\<Sum>m<20. cos_coeff m * x ^ m)"
  define R where "R = inverse (fact 20) * \<bar>x\<bar> ^ 20"
  have e: "Math_PI / 4 = x" by (simp add: Math_PI_def x_def)
  have b: "\<bar>cos x - P\<bar> \<le> R"
    unfolding P_def R_def by (rule Maclaurin_cos_bound20)
  have r: "R \<le> 1 / 1152921504606846976"
    using remainder20 [of x] by (simp add: R_def x_def)
  have p: "\<bar>P - 6369051672525773 / 9007199254740992\<bar> < 60 / 1152921504606846976"
    unfolding P_def x_def sum20 cos_coeffs by (simp add: fact_numeral power_divide)
  from b r p show "12738103345051545 / 18014398509481984 < cos (Math_PI / 4)"
    unfolding e by linarith
  from b r p show "cos (Math_PI / 4) < 12738103345051547 / 18014398509481984"
    unfolding e by linarith
qed

lemma Math_sin_quarter: "Math_sin (- (Math_PI / 4)) = - (6369051672525772 / 9007199254740992)"
proof -
  define S where "S = sin (Math_PI / 4)"
  have lo: "12738103345051543 / 18014398509481984 < S" and hi: "S < 12738103345051545 / 18014398509481984"
    unfolding S_def by (rule sin_quarter_bounds)+
  have "round64 (- S) = real_of_int (- 6369051672525772) * pow2 (- 1 - 52)"
  proof (rule round64_near)
    have "pow2 (- 1) = 1 / 2" by (simp add: pow2_def)
    with lo show "pow2 (- 1) \<le> \<bar>- S\<bar>" by linarith
    have "pow2 (- 1 + 1) = 1" by (simp add: pow2_def)
    with lo hi show "\<bar>- S\<bar> < pow2 (- 1 + 1)" by linarith
    have "- S / pow2 (- 1 - 52) - real_of_int (- 6369051672525772)
        = 6369051672525772 - S * 9007199254740992"
      by (simp add: pow2_def)
    with lo hi show "\<bar>- S / pow2 (- 1 - 52) - real_of_int (- 6369051672525772)\<bar> < 1 / 2"
      by linarith
  qed
  then show ?thesis by (simp add: Math_sin_def pow2_def S_def)
qed

lemma Math_cos_quarter: "Math_cos (- (Math_PI / 4)) = 6369051672525773 / 9007199254740992"
proof -
  define C where "C = cos (Math_PI / 4)"
  have lo: "12738103345051545 / 18014398509481984 < C" and hi: "C < 12738103345051547 / 18014398509481984"
    unfolding C_def by (rule cos_quarter_bounds)+
  have "round64 C = real_of_int 6369051672525773 * pow2 (- 1 - 52)"
  proof (rule round64_near)
    have "pow2 (- 1) = 1 / 2" by (simp add: pow2_def)
    with lo show "pow2 (- 1) \<le> \<bar>C\<bar>" by linarith
    have "pow2 (- 1 + 1) = 1" by (simp add: pow2_def)
    with lo hi show "\<bar>C\<bar> < pow2 (- 1 + 1)" by linarith
    have "C / pow2 (- 1 - 52) - real_of_int 6369051672525773
        = C * 9007199254740992 - 6369051672525773"
      by (simp add: pow2_def)
    with lo hi show "\<bar>C / pow2 (- 1 - 52) - real_of_int 6369051672525773\<bar> < 1 / 2"
      by linarith
  qed
  then show ?thesis by (simp add: Math_cos_def pow2_def C_def)
qed


lemma Math_sin_quarter_pos: "Math_sin (Math_PI / 4) = 6369051672525772 / 9007199254740992"
proof -
  define S where "S = sin (Math_PI / 4)"
  have lo: "12738103345051543 / 18014398509481984 < S" and hi: "S < 12738103345051545 / 18014398509481984"
    unfolding S_def by (rule sin_quarter_bounds)+
  have "round64 S = real_of_int 6369051672525772 * pow2 (- 1 - 52)"
  proof (rule round64_near)
    have "pow2 (- 1) = 1 / 2" by (simp add: pow2_def)
    with lo show "pow2 (- 1) \<le> \<bar>S\<bar>" by linarith
    have "pow2 (- 1 + 1) = 1" by (simp add: pow2_def)
    with lo hi show "\<bar>S\<bar> < pow2 (- 1 + 1)" by linarith
    have "S / pow2 (- 1 - 52) - real_of_int 6369051672525772
        = S * 9007199254740992 - 6369051672525772"
      by (simp add: pow2_def)
    with lo hi show "\<bar>S / pow2 (- 1 - 52) - real_of_int 6369051672525772\<bar> < 1 / 2"
      by linarith
  qed
  then show ?thesis by (simp add: Math_sin_def pow2_def S_def)
qed

lemma Math_cos_quarter_pos: "Math_cos (Math_PI / 4) = 6369051672525773 / 9007199254740992"
  using Math_cos_quarter by (simp add: Math_cos_def)

lemma Math_sin_minus_quarter [simp]:
  "Math_sin (- (884279719003555 / 1125899906842624)) = - (1592262918131443 / 2251799813685248)"
  using Math_sin_quarter by (simp add: Math_PI_def)

lemma Math_cos_minus_quarter [simp]:
  "Math_cos (- (884279719003555 / 1125899906842624)) = 6369051672525773 / 9007199254740992"
  using Math_cos_quarter by (simp add: Math_PI_def)

lemma Math_sin_plus_quarter [simp]:
  "Math_sin (884279719003555 / 1125899906842624) = 1592262918131443 / 2251799813685248"
  using Math_sin_quarter_pos by (simp add: Math_PI_def)

lemma Math_cos_plus_quarter [simp]:
  "Math_cos (884279719003555 / 1125899906842624) = 6369051672525773 / 9007199254740992"
  using Math_cos_quarter_pos by (simp add: Math_PI_def)

section \<open>The roundings met in the turns below\<close>

text \<open>
  Each lemma fixes the double nearest to one exact sum, difference, product, quotient or
  square root that the turns evaluated below produce. Most arguments are doubles
  already.
\<close>

lemma round64_1 [simp]: "round64 (884279719003555 / 562949953421312) = 884279719003555 / 562949953421312"
  by (rule round64_repr [where k = "0" and m = "7074237752028440"]) (simp_all add: pow2_def)

lemma round64_2 [simp]: "round64 (- (884279719003555 / 562949953421312)) = - (884279719003555 / 562949953421312)"
  by (rule round64_repr [where k = "0" and m = "- 7074237752028440"]) (simp_all add: pow2_def)

lemma round64_3 [simp]: "round64 (- (884279719003555 / 1125899906842624)) = - (884279719003555 / 1125899906842624)"
  by (rule round64_repr [where k = "- 1" and m = "- 7074237752028440"]) (simp_all add: pow2_def)

lemma round64_4 [simp]: "round64 (- (1592262918131443 / 2251799813685248)) = - (1592262918131443 / 2251799813685248)"
  by (rule round64_repr [where k = "- 1" and m = "- 6369051672525772"]) (simp_all add: pow2_def)

lemma round64_5 [simp]: "round64 (6369051672525773 / 9007199254740992) = 6369051672525773 / 9007199254740992"
  by (rule round64_repr [where k = "- 1" and m = "6369051672525773"]) (simp_all add: pow2_def)

lemma round64_6 [simp]: "round64 (- (1592262918131443 / 1125899906842624)) = - (1592262918131443 / 1125899906842624)"
  by (rule round64_repr [where k = "0" and m = "- 6369051672525772"]) (simp_all add: pow2_def)

lemma round64_7 [simp]:
  "round64 (2535301200456458353478625262249 / 2535301200456458802993406410752)
   = 4503599627370495 / 4503599627370496"
proof -
  have "round64 (2535301200456458353478625262249 / 2535301200456458802993406410752)
      = real_of_int (9007199254740990) * pow2 (- 1 - 52)"
    by (rule round64_near) (simp_all add: pow2_def)
  then show ?thesis by (simp add: pow2_def)
qed

lemma round64_8 [simp]:
  "round64 (- (10141204801825835006177419180439 / 10141204801825835211973625643008))
   = - 1"
proof -
  have "round64 (- (10141204801825835006177419180439 / 10141204801825835211973625643008))
      = real_of_int (- 9007199254740992) * pow2 (- 1 - 52)"
    by (rule round64_near) (simp_all add: pow2_def)
  then show ?thesis by (simp add: pow2_def)
qed

lemma round64_9 [simp]: "round64 (1) = 1"
  by (rule round64_repr [where k = "0" and m = "4503599627370496"]) (simp_all add: pow2_def)

lemma round64_10 [simp]: "round64 (4503599627370495 / 4503599627370496) = 4503599627370495 / 4503599627370496"
  by (rule round64_repr [where k = "- 1" and m = "9007199254740990"]) (simp_all add: pow2_def)

lemma round64_11 [simp]: "round64 (1 / 4503599627370496) = 1 / 4503599627370496"
  by (rule round64_repr [where k = "- 52" and m = "4503599627370496"]) (simp_all add: pow2_def)

lemma round64_12 [simp]: "round64 (- 1) = - 1"
  by (rule round64_repr [where k = "0" and m = "- 4503599627370496"]) (simp_all add: pow2_def)

lemma round64_13 [simp]: "round64 (2) = 2"
  by (rule round64_repr [where k = "1" and m = "4503599627370496"]) (simp_all add: pow2_def)

lemma round64_14 [simp]: "round64 (3) = 3"
  by (rule round64_repr [where k = "1" and m = "6755399441055744"]) (simp_all add: pow2_def)

lemma round64_15 [simp]: "round64 (4) = 4"
  by (rule round64_repr [where k = "2" and m = "4503599627370496"]) (simp_all add: pow2_def)

lemma round64_16 [simp]: "round64 (1 / 4) = 1 / 4"
  by (rule round64_repr [where k = "- 2" and m = "4503599627370496"]) (simp_all add: pow2_def)

lemma round64_17 [simp]: "round64 (- (1 / 4503599627370496)) = - (1 / 4503599627370496)"
  by (rule round64_repr [where k = "- 52" and m = "- 4503599627370496"]) (simp_all add: pow2_def)

lemma round64_18 [simp]: "round64 (4503599627370497 / 4503599627370496) = 4503599627370497 / 4503599627370496"
  by (rule round64_repr [where k = "0" and m = "4503599627370497"]) (simp_all add: pow2_def)

lemma round64_19 [simp]: "round64 (1 / 20282409603651670423947251286016) = 1 / 20282409603651670423947251286016"
  by (rule round64_repr [where k = "- 104" and m = "4503599627370496"]) (simp_all add: pow2_def)

lemma round64_20 [simp]:
  "round64 (20282409603651670423947251286017 / 20282409603651670423947251286016)
   = 1"
proof -
  have "round64 (20282409603651670423947251286017 / 20282409603651670423947251286016)
      = real_of_int (4503599627370496) * pow2 (0 - 52)"
    by (rule round64_near) (simp_all add: pow2_def)
  then show ?thesis by (simp add: pow2_def)
qed

lemma round64_21 [simp]: "round64 (2251799813685249 / 2251799813685248) = 2251799813685249 / 2251799813685248"
  by (rule round64_repr [where k = "0" and m = "4503599627370498"]) (simp_all add: pow2_def)

lemma round64_22 [simp]: "round64 (4503599627370497 / 2251799813685248) = 4503599627370497 / 2251799813685248"
  by (rule round64_repr [where k = "1" and m = "4503599627370497"]) (simp_all add: pow2_def)

lemma round64_sqrt_23 [simp]:
  "round64 (sqrt (4503599627370497 / 2251799813685248)) = 6369051672525773 / 4503599627370496"
proof -
  define r where "r = sqrt (4503599627370497 / 2251799813685248)"
  have lo: "12738103345051545 / 9007199254740992 < r"
    unfolding r_def by (rule real_less_rsqrt) (simp add: power2_eq_square)
  have hi: "r < 12738103345051547 / 9007199254740992"
    unfolding r_def by (rule real_less_lsqrt) (simp_all add: power2_eq_square)
  have "round64 r = real_of_int (6369051672525773) * pow2 (0 - 52)"
  proof (rule round64_near)
    have "pow2 (0) = 1" by (simp add: pow2_def)
    with lo show "pow2 (0) \<le> \<bar>r\<bar>" by linarith
    have "pow2 (0 + 1) = 2" by (simp add: pow2_def)
    with lo hi show "\<bar>r\<bar> < pow2 (0 + 1)" by linarith
    have "r / pow2 (0 - 52) - real_of_int (6369051672525773) = r * 4503599627370496 - 6369051672525773"
      by (simp add: pow2_def)
    with lo hi show "\<bar>r / pow2 (0 - 52) - real_of_int (6369051672525773)\<bar> < 1 / 2"
      by linarith
  qed
  then show ?thesis by (simp add: pow2_def r_def)
qed

lemma round64_24 [simp]:
  "round64 (2251799813685248 / 6369051672525773)
   = 1592262918131443 / 4503599627370496"
proof -
  have "round64 (2251799813685248 / 6369051672525773)
      = real_of_int (6369051672525772) * pow2 (- 2 - 52)"
    by (rule round64_near) (simp_all add: pow2_def)
  then show ?thesis by (simp add: pow2_def)
qed

lemma round64_25 [simp]: "round64 (- 2) = - 2"
  by (rule round64_repr [where k = "1" and m = "- 4503599627370496"]) (simp_all add: pow2_def)

lemma round64_26 [simp]:
  "round64 (1125899906842624 / 1592262918131443)
   = 6369051672525773 / 9007199254740992"
proof -
  have "round64 (1125899906842624 / 1592262918131443)
      = real_of_int (6369051672525773) * pow2 (- 1 - 52)"
    by (rule round64_near) (simp_all add: pow2_def)
  then show ?thesis by (simp add: pow2_def)
qed

lemma round64_27 [simp]: "round64 (- (4503599627370495 / 4503599627370496)) = - (4503599627370495 / 4503599627370496)"
  by (rule round64_repr [where k = "- 1" and m = "- 9007199254740990"]) (simp_all add: pow2_def)

lemma round64_28 [simp]: "round64 (1 / 411376139330301510538742295639337626245683966408394965837152256) = 1 / 411376139330301510538742295639337626245683966408394965837152256"
  by (rule round64_repr [where k = "- 208" and m = "4503599627370496"]) (simp_all add: pow2_def)

lemma round64_29 [simp]:
  "round64 (411376139330301510538742295639337626245683966408394965837152257 / 411376139330301510538742295639337626245683966408394965837152256)
   = 1"
proof -
  have "round64 (411376139330301510538742295639337626245683966408394965837152257 / 411376139330301510538742295639337626245683966408394965837152256)
      = real_of_int (4503599627370496) * pow2 (0 - 52)"
    by (rule round64_near) (simp_all add: pow2_def)
  then show ?thesis by (simp add: pow2_def)
qed

lemma round64_30 [simp]: "round64 (- (1 / 20282409603651670423947251286016)) = - (1 / 20282409603651670423947251286016)"
  by (rule round64_repr [where k = "- 104" and m = "- 4503599627370496"]) (simp_all add: pow2_def)

lemma round64_31 [simp]: "round64 (1 / 10141204801825835211973625643008) = 1 / 10141204801825835211973625643008"
  by (rule round64_repr [where k = "- 103" and m = "4503599627370496"]) (simp_all add: pow2_def)

lemma round64_32 [simp]:
  "round64 (40564819207303340847894502572033 / 411376139330301510538742295639337626245683966408394965837152256)
   = 1 / 10141204801825835211973625643008"
proof -
  have "round64 (40564819207303340847894502572033 / 411376139330301510538742295639337626245683966408394965837152256)
      = real_of_int (4503599627370496) * pow2 (- 103 - 52)"
    by (rule round64_near) (simp_all add: pow2_def)
  then show ?thesis by (simp add: pow2_def)
qed

lemma round64_33 [simp]:
  "round64 (10141204801825835211973625643009 / 10141204801825835211973625643008)
   = 1"
proof -
  have "round64 (10141204801825835211973625643009 / 10141204801825835211973625643008)
      = real_of_int (4503599627370496) * pow2 (0 - 52)"
    by (rule round64_near) (simp_all add: pow2_def)
  then show ?thesis by (simp add: pow2_def)
qed

lemma round64_34 [simp]: "round64 (1 / 2251799813685248) = 1 / 2251799813685248"
  by (rule round64_repr [where k = "- 51" and m = "4503599627370496"]) (simp_all add: pow2_def)

lemma round64_35 [simp]:
  "round64 (9007199254740993 / 20282409603651670423947251286016)
   = 1 / 2251799813685248"
proof -
  have "round64 (9007199254740993 / 20282409603651670423947251286016)
      = real_of_int (if even (4503599627370496 :: int) then 4503599627370496 else 4503599627370496 + 1) * pow2 (- 51 - 52)"
    by (rule round64_tie) (simp_all add: pow2_def)
  then show ?thesis by (simp add: pow2_def)
qed

lemma round64_sqrt_36 [simp]:
  "round64 (sqrt (2251799813685249 / 2251799813685248)) = 4503599627370497 / 4503599627370496"
proof -
  define r where "r = sqrt (2251799813685249 / 2251799813685248)"
  have lo: "9007199254740993 / 9007199254740992 < r"
    unfolding r_def by (rule real_less_rsqrt) (simp add: power2_eq_square)
  have hi: "r < 9007199254740995 / 9007199254740992"
    unfolding r_def by (rule real_less_lsqrt) (simp_all add: power2_eq_square)
  have "round64 r = real_of_int (4503599627370497) * pow2 (0 - 52)"
  proof (rule round64_near)
    have "pow2 (0) = 1" by (simp add: pow2_def)
    with lo show "pow2 (0) \<le> \<bar>r\<bar>" by linarith
    have "pow2 (0 + 1) = 2" by (simp add: pow2_def)
    with lo hi show "\<bar>r\<bar> < pow2 (0 + 1)" by linarith
    have "r / pow2 (0 - 52) - real_of_int (4503599627370497) = r * 4503599627370496 - 4503599627370497"
      by (simp add: pow2_def)
    with lo hi show "\<bar>r / pow2 (0 - 52) - real_of_int (4503599627370497)\<bar> < 1 / 2"
      by linarith
  qed
  then show ?thesis by (simp add: pow2_def r_def)
qed

lemma round64_37 [simp]:
  "round64 (2251799813685248 / 4503599627370497)
   = 4503599627370495 / 9007199254740992"
proof -
  have "round64 (2251799813685248 / 4503599627370497)
      = real_of_int (9007199254740990) * pow2 (- 2 - 52)"
    by (rule round64_near) (simp_all add: pow2_def)
  then show ?thesis by (simp add: pow2_def)
qed

lemma round64_38 [simp]: "round64 (- (4503599627370497 / 4503599627370496)) = - (4503599627370497 / 4503599627370496)"
  by (rule round64_repr [where k = "0" and m = "- 4503599627370497"]) (simp_all add: pow2_def)

lemma round64_39 [simp]:
  "round64 (- (20282409603651670423947251286015 / 40564819207303340847894502572032))
   = - (1 / 2)"
proof -
  have "round64 (- (20282409603651670423947251286015 / 40564819207303340847894502572032))
      = real_of_int (- 9007199254740992) * pow2 (- 2 - 52)"
    by (rule round64_near) (simp_all add: pow2_def)
  then show ?thesis by (simp add: pow2_def)
qed

lemma round64_40 [simp]: "round64 (- (4503599627370495 / 9007199254740992)) = - (4503599627370495 / 9007199254740992)"
  by (rule round64_repr [where k = "- 2" and m = "- 9007199254740990"]) (simp_all add: pow2_def)

lemma round64_41 [simp]:
  "round64 (2251799813685248 / 4503599627370495)
   = 4503599627370497 / 9007199254740992"
proof -
  have "round64 (2251799813685248 / 4503599627370495)
      = real_of_int (4503599627370497) * pow2 (- 1 - 52)"
    by (rule round64_near) (simp_all add: pow2_def)
  then show ?thesis by (simp add: pow2_def)
qed

lemma round64_42 [simp]: "round64 (884279719003555 / 1125899906842624) = 884279719003555 / 1125899906842624"
  by (rule round64_repr [where k = "- 1" and m = "7074237752028440"]) (simp_all add: pow2_def)

lemma round64_43 [simp]: "round64 (1592262918131443 / 2251799813685248) = 1592262918131443 / 2251799813685248"
  by (rule round64_repr [where k = "- 1" and m = "6369051672525772"]) (simp_all add: pow2_def)

lemma round64_44 [simp]: "round64 (1592262918131443 / 1125899906842624) = 1592262918131443 / 1125899906842624"
  by (rule round64_repr [where k = "0" and m = "6369051672525772"]) (simp_all add: pow2_def)

lemma round64_45 [simp]:
  "round64 (10141204801825835006177419180439 / 10141204801825835211973625643008)
   = 1"
proof -
  have "round64 (10141204801825835006177419180439 / 10141204801825835211973625643008)
      = real_of_int (9007199254740992) * pow2 (- 1 - 52)"
    by (rule round64_near) (simp_all add: pow2_def)
  then show ?thesis by (simp add: pow2_def)
qed

lemma round64_46 [simp]: "round64 (1 / 2) = 1 / 2"
  by (rule round64_repr [where k = "- 1" and m = "4503599627370496"]) (simp_all add: pow2_def)

lemma round64_47 [simp]: "round64 (4503599627370495 / 9007199254740992) = 4503599627370495 / 9007199254740992"
  by (rule round64_repr [where k = "- 2" and m = "9007199254740990"]) (simp_all add: pow2_def)

lemma round64_48 [simp]:
  "round64 (20282409603651661416747996545025 / 40564819207303340847894502572032)
   = 2251799813685247 / 4503599627370496"
proof -
  have "round64 (20282409603651661416747996545025 / 40564819207303340847894502572032)
      = real_of_int (9007199254740988) * pow2 (- 2 - 52)"
    by (rule round64_near) (simp_all add: pow2_def)
  then show ?thesis by (simp add: pow2_def)
qed

lemma round64_49 [simp]: "round64 (- (4503599627370497 / 9007199254740992)) = - (4503599627370497 / 9007199254740992)"
  by (rule round64_repr [where k = "- 1" and m = "- 4503599627370497"]) (simp_all add: pow2_def)

lemma round64_50 [simp]:
  "round64 (- (20282409603651670423947251286017 / 20282409603651670423947251286016))
   = - 1"
proof -
  have "round64 (- (20282409603651670423947251286017 / 20282409603651670423947251286016))
      = real_of_int (- 4503599627370496) * pow2 (0 - 52)"
    by (rule round64_near) (simp_all add: pow2_def)
  then show ?thesis by (simp add: pow2_def)
qed

lemma round64_51 [simp]: "round64 (1 / 91343852333181432387730302044767688728495783936) = 1 / 91343852333181432387730302044767688728495783936"
  by (rule round64_repr [where k = "- 156" and m = "4503599627370496"]) (simp_all add: pow2_def)

lemma round64_52 [simp]: "round64 (- (1592262918131443 / 91343852333181432387730302044767688728495783936)) = - (1592262918131443 / 91343852333181432387730302044767688728495783936)"
  by (rule round64_repr [where k = "- 106" and m = "- 6369051672525772"]) (simp_all add: pow2_def)


section \<open>Quarter turns in binary64\<close>

text \<open>
  The end quaternion of a quarter turn has the rounded sine and cosine of a quarter of
  \<^verbatim>\<open>Math.PI\<close>, and the matrix of the group has \<open>2\<^sup>-\<^sup>5\<^sup>2\<close> where the exact quarter
  turn has its cosine 0.
\<close>

lemma targetAngle64_quarter:
  assumes "q \<le> 1"
  shows "targetAngle64 c q = (if c then - (884279719003555 / 562949953421312)
                              else 884279719003555 / 562949953421312)"
proof -
  from assms have "max 1 (real q) = 1" by simp
  then show ?thesis
    by (simp add: targetAngle64_def anglePerQuarter64_def fdiv_def fmul_def Math_PI_def)
qed

lemma endQuat64_quarter:
  assumes "isQuarterTurn m"
  shows "endQuat64 m =
     (let k = quarterSine m * (1592262918131443 / 2251799813685248);
          w = 6369051672525773 / 9007199254740992
      in case axis m of X \<Rightarrow> (k, 0, 0, w) | Y \<Rightarrow> (0, k, 0, w) | Z \<Rightarrow> (0, 0, k, w))"
proof -
  from assms have q: "quarters m \<le> 1" and s: "sign m = 1 \<or> sign m = - 1"
    by (simp_all add: isQuarterTurn_def)
  from s show ?thesis
    unfolding endQuat64_def targetAngle64_quarter [OF q] quarterSine_def
    by (cases "axis m"; cases "cw m"; elim disjE)
       (simp_all add: Let_def identityQuaternion_def setFromAxisAngle64.simps
          multiplyQuaternions64.simps fadd_def fsub_def fmul_def fdiv_def)
qed

lemma groupMatrix64_quarter:
  assumes "isQuarterTurn m"
  shows "multiplyMatrices64 identityMatrix4 (groupMatrixWorld64 (endQuat64 m)) =
     (case axisRotation (axis m) (1 / 2 ^ 52) (quarterSine m) of (a, b, c) \<Rightarrow> (a, b, c, (0, 0, 0)))"
proof -
  from assms have s: "sign m = 1 \<or> sign m = - 1"
    by (simp add: isQuarterTurn_def)
  from s show ?thesis
    unfolding endQuat64_quarter [OF assms] quarterSine_def groupMatrixWorld64_def
    by (cases "axis m"; cases "cw m"; elim disjE)
       (simp_all add: Let_def identityMatrix4_def compose64.simps multiplyMatrices64.simps row4.simps
          axisRotation_def fadd_def fsub_def fmul_def fdiv_def)
qed

lemma turnMatrix_quarterTurn:
  assumes "isQuarterTurn m"
  shows "turnMatrix m = axisRotation (axis m) 0 (quarterSine m)"
proof -
  from assms have q: "max 1 (quarters m) = 1" and s: "sign m = 1 \<or> sign m = - 1"
    by (simp_all add: isQuarterTurn_def)
  show ?thesis
    unfolding turnMatrix_def rotation_of_axis_quaternion [OF s] targetAngle_eq q quarterSine_def
    by simp
qed

section \<open>Positions under a quarter turn in binary64\<close>

text \<open>
  The new position of a cubelet is the translation column of the product in
  \<^verbatim>\<open>attach\<close>; it does not depend on the quaternion of the cubelet. On the lattice the
  rounded products are within \<open>2\<^sup>-\<^sup>5\<^sup>2\<close> of integers, and \<^verbatim>\<open>Math.round\<close> returns the
  position that the exact turn gives.
\<close>

lemma meshPosition_applyMatrix4_64:
  "meshPosition (applyMatrix4_64 ((a11, a21, a31), (a12, a22, a32), (a13, a23, a33), (a14, a24, a34)) c)
   = (row4 (a11, a12, a13, a14) (meshPosition c) 1,
      row4 (a21, a22, a23, a24) (meshPosition c) 1,
      row4 (a31, a32, a33, a34) (meshPosition c) 1)"
proof -
  obtain x y z w where q: "meshQuaternion c = (x, y, z, w)" by (metis prod.exhaust)
  obtain sx sy sz where s: "meshScale c = (sx, sy, sz)" by (metis prod.exhaust)
  show ?thesis
    by (simp add: applyMatrix4_64_def updateMatrix64_def q s compose64.simps Let_def
        multiplyMatrices64.simps decompose64.simps)
qed

lemma home_applyMatrix4_64: "meshHome (applyMatrix4_64 g c) = meshHome c"
  by (cases "decompose64 (multiplyMatrices64 g (updateMatrix64 c))")
     (simp add: applyMatrix4_64_def)

lemma round64_unitEntry: "unitEntry x \<Longrightarrow> round64 x = x"
  by (auto simp: unitEntry_def)

lemma identity_product64: "multiplyMatrices64 identityMatrix4 identityMatrix4 = identityMatrix4"
  by (simp add: identityMatrix4_def multiplyMatrices64.simps row4.simps Let_def fadd_def fmul_def)

lemma position_attachPreserve64:
  assumes "meshPosition c \<in> lattice"
  shows "meshPosition (attachPreserve64 c) = meshPosition c"
proof -
  obtain x y z where p: "meshPosition c = (x, y, z)" by (metis prod.exhaust)
  from assms p have u: "unitEntry x" "unitEntry y" "unitEntry z"
    by (simp_all add: lattice_iff)
  have "attachPreserve64 c = applyMatrix4_64 ((1, 0, 0), (0, 1, 0), (0, 0, 1), (0, 0, 0)) c"
    unfolding attachPreserve64_def identity_product64 by (simp add: identityMatrix4_def)
  then show ?thesis
    by (simp add: meshPosition_applyMatrix4_64 p row4.simps fadd_def fmul_def round64_unitEntry u)
qed

lemma home_attachPreserve64: "meshHome (attachPreserve64 c) = meshHome c"
  by (simp add: attachPreserve64_def home_applyMatrix4_64)

lemma snapped_rows_quarter:
  assumes "unitEntry x" and "unitEntry y" and "unitEntry z" and "si = 1 \<or> si = - 1"
  shows "Math_round (row4 (0, 1 / 4503599627370496, si, 0) (x, y, z) 1) = Math_round (si * z)"
    and "Math_round (row4 (0, si, 1 / 4503599627370496, 0) (x, y, z) 1) = Math_round (si * y)"
    and "Math_round (row4 (1 / 4503599627370496, 0, si, 0) (x, y, z) 1) = Math_round (si * z)"
    and "Math_round (row4 (si, 0, 1 / 4503599627370496, 0) (x, y, z) 1) = Math_round (si * x)"
    and "Math_round (row4 (1 / 4503599627370496, si, 0, 0) (x, y, z) 1) = Math_round (si * y)"
    and "Math_round (row4 (si, 1 / 4503599627370496, 0, 0) (x, y, z) 1) = Math_round (si * x)"
    and "row4 (1, 0, 0, 0) (x, y, z) 1 = x"
    and "row4 (0, 1, 0, 0) (x, y, z) 1 = y"
    and "row4 (0, 0, 1, 0) (x, y, z) 1 = z"
  using assms unfolding unitEntry_def
  by (elim disjE; simp add: row4.simps fadd_def fmul_def Math_round_def)+


lemma isQuarterTurn_inverse: "isQuarterTurn (inverseMove m) = isQuarterTurn m"
  by (simp add: isQuarterTurn_def inverseMove_def)

lemma quarterSine_cases: "isQuarterTurn m \<Longrightarrow> quarterSine m = 1 \<or> quarterSine m = - 1"
  by (auto simp: isQuarterTurn_def quarterSine_def)

lemma position_turnMesh64:
  assumes "isQuarterTurn m" and "meshPosition c \<in> lattice"
  shows "meshPosition (turnMesh64 m c) = posTurn m (meshPosition c)"
proof (cases "roundedIndex (component (meshPosition c) (axis m)) = sign m")
  case False
  then show ?thesis by (simp add: turnMesh64_def posTurn_def)
next
  case True
  obtain x y z where p: "meshPosition c = (x, y, z)" by (metis prod.exhaust)
  from assms(2) p have u: "unitEntry x" "unitEntry y" "unitEntry z"
    by (simp_all add: lattice_iff)
  have a: "meshPosition (attachPreserve64 c) = (x, y, z)"
    using position_attachPreserve64 [OF assms(2)] p by simp
  note s = quarterSine_cases [OF assms(1)]
  have n: "- quarterSine m = 1 \<or> - quarterSine m = - 1" using s by auto
  note r = snapped_rows_quarter [OF u s] snapped_rows_quarter [OF u n]
  from True show ?thesis
    unfolding turnMesh64_def posTurn_def detachPreserve64_def
      groupMatrix64_quarter [OF assms(1)] turnMatrix_quarterTurn [OF assms(1)] p
    by (cases "axis m")
       (simp_all add: axisRotation_def snapToGrid64_def meshPosition_applyMatrix4_64 a r)
qed


lemma home_turnMesh64: "meshHome (turnMesh64 m c) = meshHome c"
  by (cases "meshPosition (detachPreserve64 (endQuat64 m) (attachPreserve64 c))")
     (simp add: turnMesh64_def snapToGrid64_def detachPreserve64_def home_applyMatrix4_64
        home_attachPreserve64)

lemma animateTurn64_map: "animateTurn64 m cs = map (turnMesh64 m) cs"
  unfolding animateTurn64_def Let_def selectLayer64_def
  by (rule map_cong [OF refl]) (simp add: turnMesh64_def)

lemma positions_animateTurn64:
  assumes "isQuarterTurn m" and "list_all (\<lambda>c. meshPosition c \<in> lattice) cs"
  shows "map meshPosition (animateTurn64 m cs) = map (posTurn m) (map meshPosition cs)"
  using assms(2) unfolding animateTurn64_map map_map
  by (intro map_cong [OF refl]) (simp add: list_all_iff position_turnMesh64 [OF assms(1)])

lemma lattice_animateTurn64:
  assumes "isQuarterTurn m" and "list_all (\<lambda>c. meshPosition c \<in> lattice) cs"
  shows "list_all (\<lambda>c. meshPosition c \<in> lattice) (animateTurn64 m cs)"
  using assms(2) unfolding animateTurn64_map
  by (simp add: list_all_iff position_turnMesh64 [OF assms(1)] posTurn_lattice)

lemma positions_posTurn:
  assumes "mset ps = mset_set lattice"
  shows "mset (map (posTurn m) ps) = mset_set lattice"
proof -
  have "mset (map (posTurn m) ps) = image_mset (posTurn m) (mset ps)"
    by (simp only: mset_map)
  also have "\<dots> = mset_set (posTurn m ` lattice)"
    unfolding assms by (rule image_mset_mset_set) (rule posTurn_inj)
  finally show ?thesis by (simp add: posTurn_image)
qed

lemma lattice_of_positions:
  assumes "mset (map meshPosition cs) = mset_set lattice"
  shows "list_all (\<lambda>c. meshPosition c \<in> lattice) cs"
proof -
  have "set (map meshPosition cs) = set_mset (mset_set lattice)"
    using assms by (metis set_mset_mset)
  then have "set (map meshPosition cs) = lattice" by (simp add: finite_lattice)
  then show ?thesis by (auto simp: list_all_iff)
qed

lemma positions_solved64: "mset (map meshPosition buildSolvedCube64) = mset_set lattice"
proof -
  have d: "distinct (map meshPosition buildSolvedCube64)"
    by (simp add: buildSolvedCube64_def newMesh_def)
  have "set (map meshPosition buildSolvedCube64) = lattice"
    by (simp add: buildSolvedCube64_def newMesh_def lattice_def)
  then show ?thesis using mset_set_set [OF d] by simp
qed

lemma turnAll64_positions:
  assumes "list_all isQuarterTurn ms" and "mset (map meshPosition cs) = mset_set lattice"
  shows "mset (map meshPosition (turnAll64 ms cs)) = mset_set lattice"
  using assms
proof (induction ms arbitrary: cs)
  case Nil
  then show ?case by simp
next
  case (Cons m ms)
  from Cons.prems(1) have q: "isQuarterTurn m" and r: "list_all isQuarterTurn ms" by simp_all
  have l: "list_all (\<lambda>c. meshPosition c \<in> lattice) cs"
    by (rule lattice_of_positions [OF Cons.prems(2)])
  have "mset (map meshPosition (animateTurn64 m cs)) = mset_set lattice"
    unfolding positions_animateTurn64 [OF q l]
    by (rule positions_posTurn) (rule Cons.prems(2))
  with r show ?case unfolding turnAll64.simps by (rule Cons.IH)
qed

lemma animateTurn64_inverse_positions:
  assumes "isQuarterTurn m" and "list_all (\<lambda>c. meshPosition c \<in> lattice) cs"
  shows "map meshPosition (animateTurn64 (inverseMove m) (animateTurn64 m cs)) = map meshPosition cs"
proof -
  have i: "isQuarterTurn (inverseMove m)" using assms(1) by (simp add: isQuarterTurn_inverse)
  have l: "list_all (\<lambda>c. meshPosition c \<in> lattice) (animateTurn64 m cs)"
    by (rule lattice_animateTurn64 [OF assms])
  have "map meshPosition (animateTurn64 (inverseMove m) (animateTurn64 m cs))
      = map (posTurn (inverseMove m)) (map (posTurn m) (map meshPosition cs))"
    unfolding positions_animateTurn64 [OF i l] positions_animateTurn64 [OF assms] ..
  also have "\<dots> = map meshPosition cs"
    unfolding map_map using assms(2)
    by (intro map_cong [OF refl]) (simp add: list_all_iff posTurn_inverse lattice_snapped)
  finally show ?thesis .
qed

lemma length_animateTurn64 [simp]: "length (animateTurn64 m cs) = length cs"
  by (simp add: animateTurn64_map)

lemma nth_animateTurn64: "i < length cs \<Longrightarrow> animateTurn64 m cs ! i = turnMesh64 m (cs ! i)"
  by (simp add: animateTurn64_map)

lemma homes_animateTurn64: "map meshHome (animateTurn64 m cs) = map meshHome cs"
  by (simp add: animateTurn64_map home_turnMesh64)

lemma length_buildSolvedCube64: "length buildSolvedCube64 = 27"
  by (simp add: buildSolvedCube64_def)

lemma nth_buildSolvedCube64:
  "buildSolvedCube64 ! 20 = newMesh 1 (- 1) 1" "buildSolvedCube64 ! 22 = newMesh 1 0 0"
  "buildSolvedCube64 ! 26 = newMesh 1 1 1"
  by (simp_all add: buildSolvedCube64_def)

lemma newMesh_literals:
  "newMesh 1 (- 1) 1 = \<lparr>meshHome = (1, - 1, 1), meshPosition = (1, - 1, 1),
     meshQuaternion = (0, 0, 0, 1), meshScale = (1, 1, 1)\<rparr>"
  "newMesh 1 0 0 = \<lparr>meshHome = (1, 0, 0), meshPosition = (1, 0, 0),
     meshQuaternion = (0, 0, 0, 1), meshScale = (1, 1, 1)\<rparr>"
  "newMesh 1 1 1 = \<lparr>meshHome = (1, 1, 1), meshPosition = (1, 1, 1),
     meshQuaternion = (0, 0, 0, 1), meshScale = (1, 1, 1)\<rparr>"
  by (simp_all add: newMesh_def identityQuaternion_def)

lemma quarter_turns [simp]:
  "isQuarterTurn quarterTurnX" "isQuarterTurn quarterTurnY" "isQuarterTurn (inverseMove quarterTurnY)"
  by (simp_all add: isQuarterTurn_def quarterTurnX_def quarterTurnY_def inverseMove_def)

lemma snapToGrid64_fields:
  "meshQuaternion (snapToGrid64 c) = meshQuaternion c" "meshScale (snapToGrid64 c) = meshScale c"
  "meshHome (snapToGrid64 c) = meshHome c" "snapped (meshPosition (snapToGrid64 c))"
  by (cases "meshPosition c"; simp add: snapToGrid64_def snapped_def)+

lemma rotation_after_quarterTurnX:
  "compose64 p (- (1592262918131443 / 2251799813685248), 0, 0, 6369051672525773 / 9007199254740992)
     (1, 1, 1)
   = ((1, 0, 0), (0, 1 / 4503599627370496, - 1), (0, 1, 1 / 4503599627370496), p)"
  by (simp add: compose64.simps Let_def fadd_def fsub_def fmul_def)

lemma not_cube_rotation64:
  "\<not> isCubeRotation ((1, 0, 0), (0, 1 / 4503599627370496, - 1), (0, 1, 1 / 4503599627370496))"
  by (simp add: isCubeRotation_def unitEntry_def)

lemma not_cube_rotation_exact:
  "\<not> isCubeRotation (makeRotationFromQuaternion
        (- (1592262918131443 / 2251799813685248), 0, 0, 6369051672525773 / 9007199254740992))"
  by (simp add: isCubeRotation_def unitEntry_def Let_def)

section \<open>Three turns in binary64, step by step\<close>

text \<open>
  The values of \<open>compose64\<close>, \<open>multiplyMatrices64\<close> and \<open>decompose64\<close> in the turn
  \<open>quarterTurnX\<close> of three cubelets of the solved cube, and in the turns \<open>quarterTurnY\<close>
  and its inverse that follow for one of them.
\<close>

lemma compose64_1:
  "compose64 (0, 0, 0)
     (- (1592262918131443 / 2251799813685248), 0, 0, 6369051672525773 / 9007199254740992)
     (1, 1, 1) =
     ((1, 0, 0), (0, 1 / 4503599627370496, - 1), (0, 1, 1 / 4503599627370496), (0, 0, 0))"
  by (simp add: compose64.simps Let_def fadd_def fsub_def fmul_def fdiv_def)

lemma multiplyMatrices64_1:
  "multiplyMatrices64
     ((1, 0, 0), (0, 1, 0), (0, 0, 1), (0, 0, 0))
     ((1, 0, 0), (0, 1, 0), (0, 0, 1), (0, 0, 0)) =
     ((1, 0, 0), (0, 1, 0), (0, 0, 1), (0, 0, 0))"
  by (simp add: multiplyMatrices64.simps row4.simps Let_def fadd_def fsub_def fmul_def fdiv_def)

lemma compose64_2:
  "compose64 (1, - 1, 1)
     (0, 0, 0, 1)
     (1, 1, 1) =
     ((1, 0, 0), (0, 1, 0), (0, 0, 1), (1, - 1, 1))"
  by (simp add: compose64.simps Let_def fadd_def fsub_def fmul_def fdiv_def)

lemma multiplyMatrices64_2:
  "multiplyMatrices64
     ((1, 0, 0), (0, 1, 0), (0, 0, 1), (0, 0, 0))
     ((1, 0, 0), (0, 1, 0), (0, 0, 1), (1, - 1, 1)) =
     ((1, 0, 0), (0, 1, 0), (0, 0, 1), (1, - 1, 1))"
  by (simp add: multiplyMatrices64.simps row4.simps Let_def fadd_def fsub_def fmul_def fdiv_def)

lemma length64_1:
  "length64 (1, 0, 0) = 1"
  by (simp add: length64.simps Let_def fadd_def fsub_def fmul_def fdiv_def Math_sqrt_def)

lemma length64_2:
  "length64 (0, 1, 0) = 1"
  by (simp add: length64.simps Let_def fadd_def fsub_def fmul_def fdiv_def Math_sqrt_def)

lemma length64_3:
  "length64 (0, 0, 1) = 1"
  by (simp add: length64.simps Let_def fadd_def fsub_def fmul_def fdiv_def Math_sqrt_def)

lemma determinant64_1:
  "determinant64
     ((1, 0, 0), (0, 1, 0), (0, 0, 1), (1, - 1, 1)) =
     1"
  by (simp add: determinant64.simps Let_def fadd_def fsub_def fmul_def fdiv_def)

lemma setFromRotationMatrix64_1:
  "setFromRotationMatrix64
     ((1, 0, 0), (0, 1, 0), (0, 0, 1)) =
     (0, 0, 0, 1)"
  by (simp add: setFromRotationMatrix64.simps Let_def fadd_def fsub_def fmul_def fdiv_def Math_sqrt_def)

lemma multiplyMatrices64_3:
  "multiplyMatrices64
     ((1, 0, 0), (0, 1, 0), (0, 0, 1), (0, 0, 0))
     ((1, 0, 0), (0, 1 / 4503599627370496, - 1), (0, 1, 1 / 4503599627370496), (0, 0, 0)) =
     ((1, 0, 0), (0, 1 / 4503599627370496, - 1), (0, 1, 1 / 4503599627370496), (0, 0, 0))"
  by (simp add: multiplyMatrices64.simps row4.simps Let_def fadd_def fsub_def fmul_def fdiv_def)

lemma multiplyMatrices64_4:
  "multiplyMatrices64
     ((1, 0, 0), (0, 1 / 4503599627370496, - 1), (0, 1, 1 / 4503599627370496), (0, 0, 0))
     ((1, 0, 0), (0, 1, 0), (0, 0, 1), (1, - 1, 1)) =
     ((1, 0, 0), (0, 1 / 4503599627370496, - 1), (0, 1, 1 / 4503599627370496), (1,
        4503599627370495 / 4503599627370496, 4503599627370497 / 4503599627370496))"
  by (simp add: multiplyMatrices64.simps row4.simps Let_def fadd_def fsub_def fmul_def fdiv_def)

lemma length64_4:
  "length64 (0, 1 / 4503599627370496, - 1) = 1"
  by (simp add: length64.simps Let_def fadd_def fsub_def fmul_def fdiv_def Math_sqrt_def)

lemma length64_5:
  "length64 (0, 1, 1 / 4503599627370496) = 1"
  by (simp add: length64.simps Let_def fadd_def fsub_def fmul_def fdiv_def Math_sqrt_def)

lemma determinant64_2:
  "determinant64
     ((1, 0, 0), (0, 1 / 4503599627370496, - 1), (0, 1, 1 / 4503599627370496), (1,
        4503599627370495 / 4503599627370496, 4503599627370497 / 4503599627370496)) =
     1"
  by (simp add: determinant64.simps Let_def fadd_def fsub_def fmul_def fdiv_def)

lemma setFromRotationMatrix64_2:
  "setFromRotationMatrix64
     ((1, 0, 0), (0, 1 / 4503599627370496, - 1), (0, 1, 1 / 4503599627370496)) =
     (- (1592262918131443 / 2251799813685248), 0, 0, 6369051672525773 / 9007199254740992)"
  by (simp add: setFromRotationMatrix64.simps Let_def fadd_def fsub_def fmul_def fdiv_def Math_sqrt_def)

lemma compose64_3:
  "compose64 (0, 0, 0)
     (0, - (1592262918131443 / 2251799813685248), 0, 6369051672525773 / 9007199254740992)
     (1, 1, 1) =
     ((1 / 4503599627370496, 0, 1), (0, 1, 0), (- 1, 0, 1 / 4503599627370496), (0, 0, 0))"
  by (simp add: compose64.simps Let_def fadd_def fsub_def fmul_def fdiv_def)

lemma compose64_4:
  "compose64 (1, 1, 1)
     (- (1592262918131443 / 2251799813685248), 0, 0, 6369051672525773 / 9007199254740992)
     (1, 1, 1) =
     ((1, 0, 0), (0, 1 / 4503599627370496, - 1), (0, 1, 1 / 4503599627370496), (1, 1, 1))"
  by (simp add: compose64.simps Let_def fadd_def fsub_def fmul_def fdiv_def)

lemma multiplyMatrices64_5:
  "multiplyMatrices64
     ((1, 0, 0), (0, 1, 0), (0, 0, 1), (0, 0, 0))
     ((1, 0, 0), (0, 1 / 4503599627370496, - 1), (0, 1, 1 / 4503599627370496), (1, 1, 1)) =
     ((1, 0, 0), (0, 1 / 4503599627370496, - 1), (0, 1, 1 / 4503599627370496), (1, 1, 1))"
  by (simp add: multiplyMatrices64.simps row4.simps Let_def fadd_def fsub_def fmul_def fdiv_def)

lemma determinant64_3:
  "determinant64
     ((1, 0, 0), (0, 1 / 4503599627370496, - 1), (0, 1, 1 / 4503599627370496), (1, 1, 1)) =
     1"
  by (simp add: determinant64.simps Let_def fadd_def fsub_def fmul_def fdiv_def)

lemma multiplyMatrices64_6:
  "multiplyMatrices64
     ((1, 0, 0), (0, 1, 0), (0, 0, 1), (0, 0, 0))
     ((1 / 4503599627370496, 0, 1), (0, 1, 0), (- 1, 0, 1 / 4503599627370496), (0, 0, 0)) =
     ((1 / 4503599627370496, 0, 1), (0, 1, 0), (- 1, 0, 1 / 4503599627370496), (0, 0, 0))"
  by (simp add: multiplyMatrices64.simps row4.simps Let_def fadd_def fsub_def fmul_def fdiv_def)

lemma multiplyMatrices64_7:
  "multiplyMatrices64
     ((1 / 4503599627370496, 0, 1), (0, 1, 0), (- 1, 0, 1 / 4503599627370496), (0, 0, 0))
     ((1, 0, 0), (0, 1 / 4503599627370496, - 1), (0, 1, 1 / 4503599627370496), (1, 1, 1)) =
     ((1 / 4503599627370496, 0, 1), (1, 1 / 4503599627370496, - (1 / 4503599627370496)),
        (- (1 / 4503599627370496), 1, 1 / 20282409603651670423947251286016),
        (- (4503599627370495 / 4503599627370496), 1, 4503599627370497 / 4503599627370496))"
  by (simp add: multiplyMatrices64.simps row4.simps Let_def fadd_def fsub_def fmul_def fdiv_def)

lemma length64_6:
  "length64 (1 / 4503599627370496, 0, 1) = 1"
  by (simp add: length64.simps Let_def fadd_def fsub_def fmul_def fdiv_def Math_sqrt_def)

lemma length64_7:
  "length64 (1, 1 / 4503599627370496, - (1 / 4503599627370496)) = 1"
  by (simp add: length64.simps Let_def fadd_def fsub_def fmul_def fdiv_def Math_sqrt_def)

lemma length64_8:
  "length64 (- (1 / 4503599627370496), 1, 1 / 20282409603651670423947251286016) = 1"
  by (simp add: length64.simps Let_def fadd_def fsub_def fmul_def fdiv_def Math_sqrt_def)

lemma determinant64_4:
  "determinant64
     ((1 / 4503599627370496, 0, 1), (1, 1 / 4503599627370496, - (1 / 4503599627370496)),
        (- (1 / 4503599627370496), 1, 1 / 20282409603651670423947251286016),
        (- (4503599627370495 / 4503599627370496), 1, 4503599627370497 / 4503599627370496)) =
     1"
  by (simp add: determinant64.simps Let_def fadd_def fsub_def fmul_def fdiv_def)

lemma setFromRotationMatrix64_3:
  "setFromRotationMatrix64
     ((1 / 4503599627370496, 0, 1), (1, 1 / 4503599627370496, - (1 / 4503599627370496)),
        (- (1 / 4503599627370496), 1, 1 / 20282409603651670423947251286016)) =
     (- (1 / 2), - (1 / 2), - (4503599627370495 / 9007199254740992),
        4503599627370497 / 9007199254740992)"
  by (simp add: setFromRotationMatrix64.simps Let_def fadd_def fsub_def fmul_def fdiv_def Math_sqrt_def)

lemma compose64_5:
  "compose64 (0, 0, 0)
     (0, 1592262918131443 / 2251799813685248, 0, 6369051672525773 / 9007199254740992)
     (1, 1, 1) =
     ((1 / 4503599627370496, 0, - 1), (0, 1, 0), (1, 0, 1 / 4503599627370496), (0, 0, 0))"
  by (simp add: compose64.simps Let_def fadd_def fsub_def fmul_def fdiv_def)

lemma compose64_6:
  "compose64 (- 1, 1, 1)
     (- (1 / 2), - (1 / 2), - (4503599627370495 / 9007199254740992),
        4503599627370497 / 9007199254740992)
     (1, 1, 1) =
     ((1 / 4503599627370496, 0, 1), (1, 1 / 4503599627370496, - (1 / 4503599627370496)),
        (- (1 / 4503599627370496), 1, 0), (- 1, 1, 1))"
  by (simp add: compose64.simps Let_def fadd_def fsub_def fmul_def fdiv_def)

lemma multiplyMatrices64_8:
  "multiplyMatrices64
     ((1, 0, 0), (0, 1, 0), (0, 0, 1), (0, 0, 0))
     ((1 / 4503599627370496, 0, 1), (1, 1 / 4503599627370496, - (1 / 4503599627370496)),
        (- (1 / 4503599627370496), 1, 0), (- 1, 1, 1)) =
     ((1 / 4503599627370496, 0, 1), (1, 1 / 4503599627370496, - (1 / 4503599627370496)),
        (- (1 / 4503599627370496), 1, 0), (- 1, 1, 1))"
  by (simp add: multiplyMatrices64.simps row4.simps Let_def fadd_def fsub_def fmul_def fdiv_def)

lemma length64_9:
  "length64 (- (1 / 4503599627370496), 1, 0) = 1"
  by (simp add: length64.simps Let_def fadd_def fsub_def fmul_def fdiv_def Math_sqrt_def)

lemma determinant64_5:
  "determinant64
     ((1 / 4503599627370496, 0, 1), (1, 1 / 4503599627370496, - (1 / 4503599627370496)),
        (- (1 / 4503599627370496), 1, 0), (- 1, 1, 1)) =
     1"
  by (simp add: determinant64.simps Let_def fadd_def fsub_def fmul_def fdiv_def)

lemma setFromRotationMatrix64_4:
  "setFromRotationMatrix64
     ((1 / 4503599627370496, 0, 1), (1, 1 / 4503599627370496, - (1 / 4503599627370496)),
        (- (1 / 4503599627370496), 1, 0)) =
     (- (1 / 2), - (1 / 2), - (4503599627370495 / 9007199254740992),
        4503599627370497 / 9007199254740992)"
  by (simp add: setFromRotationMatrix64.simps Let_def fadd_def fsub_def fmul_def fdiv_def Math_sqrt_def)

lemma multiplyMatrices64_9:
  "multiplyMatrices64
     ((1, 0, 0), (0, 1, 0), (0, 0, 1), (0, 0, 0))
     ((1 / 4503599627370496, 0, - 1), (0, 1, 0), (1, 0, 1 / 4503599627370496), (0, 0, 0)) =
     ((1 / 4503599627370496, 0, - 1), (0, 1, 0), (1, 0, 1 / 4503599627370496), (0, 0, 0))"
  by (simp add: multiplyMatrices64.simps row4.simps Let_def fadd_def fsub_def fmul_def fdiv_def)

lemma multiplyMatrices64_10:
  "multiplyMatrices64
     ((1 / 4503599627370496, 0, - 1), (0, 1, 0), (1, 0, 1 / 4503599627370496), (0, 0, 0))
     ((1 / 4503599627370496, 0, 1), (1, 1 / 4503599627370496, - (1 / 4503599627370496)),
        (- (1 / 4503599627370496), 1, 0), (- 1, 1, 1)) =
     ((1, 0, 0), (0, 1 / 4503599627370496, - 1), (- (1 / 20282409603651670423947251286016), 1,
        1 / 4503599627370496), (4503599627370495 / 4503599627370496, 1,
        4503599627370497 / 4503599627370496))"
  by (simp add: multiplyMatrices64.simps row4.simps Let_def fadd_def fsub_def fmul_def fdiv_def)

lemma length64_10:
  "length64 (- (1 / 20282409603651670423947251286016), 1, 1 / 4503599627370496) = 1"
  by (simp add: length64.simps Let_def fadd_def fsub_def fmul_def fdiv_def Math_sqrt_def)

lemma determinant64_6:
  "determinant64
     ((1, 0, 0), (0, 1 / 4503599627370496, - 1), (- (1 / 20282409603651670423947251286016), 1,
        1 / 4503599627370496), (4503599627370495 / 4503599627370496, 1,
        4503599627370497 / 4503599627370496)) =
     1"
  by (simp add: determinant64.simps Let_def fadd_def fsub_def fmul_def fdiv_def)

lemma setFromRotationMatrix64_5:
  "setFromRotationMatrix64
     ((1, 0, 0), (0, 1 / 4503599627370496, - 1), (- (1 / 20282409603651670423947251286016), 1,
        1 / 4503599627370496)) =
     (- (1592262918131443 / 2251799813685248),
        - (1592262918131443 / 91343852333181432387730302044767688728495783936), 0,
        6369051672525773 / 9007199254740992)"
  by (simp add: setFromRotationMatrix64.simps Let_def fadd_def fsub_def fmul_def fdiv_def Math_sqrt_def)

lemma compose64_7:
  "compose64 (1, 0, 0)
     (0, 0, 0, 1)
     (1, 1, 1) =
     ((1, 0, 0), (0, 1, 0), (0, 0, 1), (1, 0, 0))"
  by (simp add: compose64.simps Let_def fadd_def fsub_def fmul_def fdiv_def)

lemma multiplyMatrices64_11:
  "multiplyMatrices64
     ((1, 0, 0), (0, 1, 0), (0, 0, 1), (0, 0, 0))
     ((1, 0, 0), (0, 1, 0), (0, 0, 1), (1, 0, 0)) =
     ((1, 0, 0), (0, 1, 0), (0, 0, 1), (1, 0, 0))"
  by (simp add: multiplyMatrices64.simps row4.simps Let_def fadd_def fsub_def fmul_def fdiv_def)

lemma determinant64_7:
  "determinant64
     ((1, 0, 0), (0, 1, 0), (0, 0, 1), (1, 0, 0)) =
     1"
  by (simp add: determinant64.simps Let_def fadd_def fsub_def fmul_def fdiv_def)

lemma multiplyMatrices64_12:
  "multiplyMatrices64
     ((1, 0, 0), (0, 1 / 4503599627370496, - 1), (0, 1, 1 / 4503599627370496), (0, 0, 0))
     ((1, 0, 0), (0, 1, 0), (0, 0, 1), (1, 0, 0)) =
     ((1, 0, 0), (0, 1 / 4503599627370496, - 1), (0, 1, 1 / 4503599627370496), (1, 0, 0))"
  by (simp add: multiplyMatrices64.simps row4.simps Let_def fadd_def fsub_def fmul_def fdiv_def)

lemma determinant64_8:
  "determinant64
     ((1, 0, 0), (0, 1 / 4503599627370496, - 1), (0, 1, 1 / 4503599627370496), (1, 0, 0)) =
     1"
  by (simp add: determinant64.simps Let_def fadd_def fsub_def fmul_def fdiv_def)

lemma compose64_8:
  "compose64 (1, 1, 1)
     (0, 0, 0, 1)
     (1, 1, 1) =
     ((1, 0, 0), (0, 1, 0), (0, 0, 1), (1, 1, 1))"
  by (simp add: compose64.simps Let_def fadd_def fsub_def fmul_def fdiv_def)

lemma multiplyMatrices64_13:
  "multiplyMatrices64
     ((1, 0, 0), (0, 1, 0), (0, 0, 1), (0, 0, 0))
     ((1, 0, 0), (0, 1, 0), (0, 0, 1), (1, 1, 1)) =
     ((1, 0, 0), (0, 1, 0), (0, 0, 1), (1, 1, 1))"
  by (simp add: multiplyMatrices64.simps row4.simps Let_def fadd_def fsub_def fmul_def fdiv_def)

lemma determinant64_9:
  "determinant64
     ((1, 0, 0), (0, 1, 0), (0, 0, 1), (1, 1, 1)) =
     1"
  by (simp add: determinant64.simps Let_def fadd_def fsub_def fmul_def fdiv_def)

lemma multiplyMatrices64_14:
  "multiplyMatrices64
     ((1, 0, 0), (0, 1 / 4503599627370496, - 1), (0, 1, 1 / 4503599627370496), (0, 0, 0))
     ((1, 0, 0), (0, 1, 0), (0, 0, 1), (1, 1, 1)) =
     ((1, 0, 0), (0, 1 / 4503599627370496, - 1), (0, 1, 1 / 4503599627370496), (1,
        4503599627370497 / 4503599627370496, - (4503599627370495 / 4503599627370496)))"
  by (simp add: multiplyMatrices64.simps row4.simps Let_def fadd_def fsub_def fmul_def fdiv_def)

lemma determinant64_10:
  "determinant64
     ((1, 0, 0), (0, 1 / 4503599627370496, - 1), (0, 1, 1 / 4503599627370496), (1,
        4503599627370497 / 4503599627370496, - (4503599627370495 / 4503599627370496))) =
     1"
  by (simp add: determinant64.simps Let_def fadd_def fsub_def fmul_def fdiv_def)

lemmas lengths64 = length64_1 length64_2 length64_3 length64_4 length64_5 length64_6 length64_7
  length64_8 length64_9 length64_10

lemmas determinants64 = determinant64_1 determinant64_2 determinant64_3 determinant64_4
  determinant64_5 determinant64_6 determinant64_7 determinant64_8 determinant64_9
  determinant64_10

lemmas rotations64 = setFromRotationMatrix64_1 setFromRotationMatrix64_2
  setFromRotationMatrix64_3 setFromRotationMatrix64_4 setFromRotationMatrix64_5

lemma decompose64_1:
  "decompose64
     ((1, 0, 0), (0, 1, 0), (0, 0, 1), (1, - 1, 1)) =
     ((1, - 1, 1),
      (0, 0, 0, 1),
      (1, 1, 1))"
  by (simp add: decompose64.simps Let_def lengths64 determinants64 rotations64 fdiv_def fmul_def)

lemma decompose64_2:
  "decompose64
     ((1, 0, 0), (0, 1 / 4503599627370496, - 1), (0, 1, 1 / 4503599627370496), (1,
        4503599627370495 / 4503599627370496, 4503599627370497 / 4503599627370496)) =
     ((1, 4503599627370495 / 4503599627370496, 4503599627370497 / 4503599627370496),
      (- (1592262918131443 / 2251799813685248), 0, 0, 6369051672525773 / 9007199254740992),
      (1, 1, 1))"
  by (simp add: decompose64.simps Let_def lengths64 determinants64 rotations64 fdiv_def fmul_def)

lemma decompose64_3:
  "decompose64
     ((1, 0, 0), (0, 1 / 4503599627370496, - 1), (0, 1, 1 / 4503599627370496), (1, 1, 1)) =
     ((1, 1, 1),
      (- (1592262918131443 / 2251799813685248), 0, 0, 6369051672525773 / 9007199254740992),
      (1, 1, 1))"
  by (simp add: decompose64.simps Let_def lengths64 determinants64 rotations64 fdiv_def fmul_def)

lemma decompose64_4:
  "decompose64
     ((1 / 4503599627370496, 0, 1), (1, 1 / 4503599627370496, - (1 / 4503599627370496)),
        (- (1 / 4503599627370496), 1, 1 / 20282409603651670423947251286016),
        (- (4503599627370495 / 4503599627370496), 1, 4503599627370497 / 4503599627370496)) =
     ((- (4503599627370495 / 4503599627370496), 1, 4503599627370497 / 4503599627370496),
      (- (1 / 2), - (1 / 2), - (4503599627370495 / 9007199254740992),
        4503599627370497 / 9007199254740992),
      (1, 1, 1))"
  by (simp add: decompose64.simps Let_def lengths64 determinants64 rotations64 fdiv_def fmul_def)

lemma decompose64_5:
  "decompose64
     ((1 / 4503599627370496, 0, 1), (1, 1 / 4503599627370496, - (1 / 4503599627370496)),
        (- (1 / 4503599627370496), 1, 0), (- 1, 1, 1)) =
     ((- 1, 1, 1),
      (- (1 / 2), - (1 / 2), - (4503599627370495 / 9007199254740992),
        4503599627370497 / 9007199254740992),
      (1, 1, 1))"
  by (simp add: decompose64.simps Let_def lengths64 determinants64 rotations64 fdiv_def fmul_def)

lemma decompose64_6:
  "decompose64
     ((1, 0, 0), (0, 1 / 4503599627370496, - 1), (- (1 / 20282409603651670423947251286016), 1,
        1 / 4503599627370496), (4503599627370495 / 4503599627370496, 1,
        4503599627370497 / 4503599627370496)) =
     ((4503599627370495 / 4503599627370496, 1, 4503599627370497 / 4503599627370496),
      (- (1592262918131443 / 2251799813685248),
        - (1592262918131443 / 91343852333181432387730302044767688728495783936), 0,
        6369051672525773 / 9007199254740992),
      (1, 1, 1))"
  by (simp add: decompose64.simps Let_def lengths64 determinants64 rotations64 fdiv_def fmul_def)

lemma decompose64_7:
  "decompose64
     ((1, 0, 0), (0, 1, 0), (0, 0, 1), (1, 0, 0)) =
     ((1, 0, 0),
      (0, 0, 0, 1),
      (1, 1, 1))"
  by (simp add: decompose64.simps Let_def lengths64 determinants64 rotations64 fdiv_def fmul_def)

lemma decompose64_8:
  "decompose64
     ((1, 0, 0), (0, 1 / 4503599627370496, - 1), (0, 1, 1 / 4503599627370496), (1, 0, 0)) =
     ((1, 0, 0),
      (- (1592262918131443 / 2251799813685248), 0, 0, 6369051672525773 / 9007199254740992),
      (1, 1, 1))"
  by (simp add: decompose64.simps Let_def lengths64 determinants64 rotations64 fdiv_def fmul_def)

lemma decompose64_9:
  "decompose64
     ((1, 0, 0), (0, 1, 0), (0, 0, 1), (1, 1, 1)) =
     ((1, 1, 1),
      (0, 0, 0, 1),
      (1, 1, 1))"
  by (simp add: decompose64.simps Let_def lengths64 determinants64 rotations64 fdiv_def fmul_def)

lemma decompose64_10:
  "decompose64
     ((1, 0, 0), (0, 1 / 4503599627370496, - 1), (0, 1, 1 / 4503599627370496), (1,
        4503599627370497 / 4503599627370496, - (4503599627370495 / 4503599627370496))) =
     ((1, 4503599627370497 / 4503599627370496, - (4503599627370495 / 4503599627370496)),
      (- (1592262918131443 / 2251799813685248), 0, 0, 6369051672525773 / 9007199254740992),
      (1, 1, 1))"
  by (simp add: decompose64.simps Let_def lengths64 determinants64 rotations64 fdiv_def fmul_def)

lemmas steps64 = compose64_1 compose64_2 compose64_3 compose64_4 compose64_5 compose64_6
  compose64_7 compose64_8 multiplyMatrices64_1 multiplyMatrices64_2 multiplyMatrices64_3
  multiplyMatrices64_4 multiplyMatrices64_5 multiplyMatrices64_6 multiplyMatrices64_7
  multiplyMatrices64_8 multiplyMatrices64_9 multiplyMatrices64_10 multiplyMatrices64_11
  multiplyMatrices64_12 multiplyMatrices64_13 multiplyMatrices64_14 decompose64_1 decompose64_2
  decompose64_3 decompose64_4 decompose64_5 decompose64_6 decompose64_7 decompose64_8
  decompose64_9 decompose64_10

lemma endQuat64_quarterTurnX:
  "endQuat64 (quarterTurnX) =
     (- (1592262918131443 / 2251799813685248), 0, 0, 6369051672525773 / 9007199254740992)"
  by (simp add: endQuat64_quarter isQuarterTurn_def quarterSine_def quarterTurnX_def quarterTurnY_def
      inverseMove_def Let_def)

lemma detach_corner20_X:
  "detachPreserve64
     (- (1592262918131443 / 2251799813685248), 0, 0, 6369051672525773 / 9007199254740992)
     (attachPreserve64
       \<lparr>meshHome = (1, - 1, 1), meshPosition = (1, - 1, 1),
      meshQuaternion = (0, 0, 0, 1),
      meshScale = (1, 1, 1)\<rparr>)
   = \<lparr>meshHome = (1, - 1, 1), meshPosition = (1, 4503599627370495 / 4503599627370496,
        4503599627370497 / 4503599627370496),
      meshQuaternion = (- (1592262918131443 / 2251799813685248), 0, 0,
        6369051672525773 / 9007199254740992),
      meshScale = (1, 1, 1)\<rparr>"
  by (simp add: attachPreserve64_def detachPreserve64_def groupMatrixWorld64_def
      applyMatrix4_64_def updateMatrix64_def identityMatrix4_def steps64)

lemma turn_corner20_X:
  "turnMesh64 (quarterTurnX)
     \<lparr>meshHome = (1, - 1, 1), meshPosition = (1, - 1, 1),
      meshQuaternion = (0, 0, 0, 1),
      meshScale = (1, 1, 1)\<rparr>
   = \<lparr>meshHome = (1, - 1, 1), meshPosition = (1, 1, 1),
      meshQuaternion = (- (1592262918131443 / 2251799813685248), 0, 0,
        6369051672525773 / 9007199254740992),
      meshScale = (1, 1, 1)\<rparr>"
  unfolding turnMesh64_def endQuat64_quarterTurnX detach_corner20_X
  by (simp add: snapToGrid64_def Math_round_def quarterTurnX_def quarterTurnY_def
      inverseMove_def)

lemma endQuat64_quarterTurnY:
  "endQuat64 (quarterTurnY) =
     (0, - (1592262918131443 / 2251799813685248), 0, 6369051672525773 / 9007199254740992)"
  by (simp add: endQuat64_quarter isQuarterTurn_def quarterSine_def quarterTurnX_def quarterTurnY_def
      inverseMove_def Let_def)

lemma detach_corner20_Y:
  "detachPreserve64
     (0, - (1592262918131443 / 2251799813685248), 0, 6369051672525773 / 9007199254740992)
     (attachPreserve64
       \<lparr>meshHome = (1, - 1, 1), meshPosition = (1, 1, 1),
      meshQuaternion = (- (1592262918131443 / 2251799813685248), 0, 0,
        6369051672525773 / 9007199254740992),
      meshScale = (1, 1, 1)\<rparr>)
   = \<lparr>meshHome = (1, - 1, 1), meshPosition = (- (4503599627370495 / 4503599627370496), 1,
        4503599627370497 / 4503599627370496),
      meshQuaternion = (- (1 / 2), - (1 / 2), - (4503599627370495 / 9007199254740992),
        4503599627370497 / 9007199254740992),
      meshScale = (1, 1, 1)\<rparr>"
  by (simp add: attachPreserve64_def detachPreserve64_def groupMatrixWorld64_def
      applyMatrix4_64_def updateMatrix64_def identityMatrix4_def steps64)

lemma turn_corner20_Y:
  "turnMesh64 (quarterTurnY)
     \<lparr>meshHome = (1, - 1, 1), meshPosition = (1, 1, 1),
      meshQuaternion = (- (1592262918131443 / 2251799813685248), 0, 0,
        6369051672525773 / 9007199254740992),
      meshScale = (1, 1, 1)\<rparr>
   = \<lparr>meshHome = (1, - 1, 1), meshPosition = (- 1, 1, 1),
      meshQuaternion = (- (1 / 2), - (1 / 2), - (4503599627370495 / 9007199254740992),
        4503599627370497 / 9007199254740992),
      meshScale = (1, 1, 1)\<rparr>"
  unfolding turnMesh64_def endQuat64_quarterTurnY detach_corner20_Y
  by (simp add: snapToGrid64_def Math_round_def quarterTurnX_def quarterTurnY_def
      inverseMove_def)

lemma endQuat64_inverse_quarterTurnY:
  "endQuat64 (inverseMove quarterTurnY) =
     (0, 1592262918131443 / 2251799813685248, 0, 6369051672525773 / 9007199254740992)"
  by (simp add: endQuat64_quarter isQuarterTurn_def quarterSine_def quarterTurnX_def quarterTurnY_def
      inverseMove_def Let_def)

lemma detach_corner20_Y_inverse:
  "detachPreserve64
     (0, 1592262918131443 / 2251799813685248, 0, 6369051672525773 / 9007199254740992)
     (attachPreserve64
       \<lparr>meshHome = (1, - 1, 1), meshPosition = (- 1, 1, 1),
      meshQuaternion = (- (1 / 2), - (1 / 2), - (4503599627370495 / 9007199254740992),
        4503599627370497 / 9007199254740992),
      meshScale = (1, 1, 1)\<rparr>)
   = \<lparr>meshHome = (1, - 1, 1), meshPosition = (4503599627370495 / 4503599627370496, 1,
        4503599627370497 / 4503599627370496),
      meshQuaternion = (- (1592262918131443 / 2251799813685248),
        - (1592262918131443 / 91343852333181432387730302044767688728495783936), 0,
        6369051672525773 / 9007199254740992),
      meshScale = (1, 1, 1)\<rparr>"
  by (simp add: attachPreserve64_def detachPreserve64_def groupMatrixWorld64_def
      applyMatrix4_64_def updateMatrix64_def identityMatrix4_def steps64)

lemma turn_corner20_Y_inverse:
  "turnMesh64 (inverseMove quarterTurnY)
     \<lparr>meshHome = (1, - 1, 1), meshPosition = (- 1, 1, 1),
      meshQuaternion = (- (1 / 2), - (1 / 2), - (4503599627370495 / 9007199254740992),
        4503599627370497 / 9007199254740992),
      meshScale = (1, 1, 1)\<rparr>
   = \<lparr>meshHome = (1, - 1, 1), meshPosition = (1, 1, 1),
      meshQuaternion = (- (1592262918131443 / 2251799813685248),
        - (1592262918131443 / 91343852333181432387730302044767688728495783936), 0,
        6369051672525773 / 9007199254740992),
      meshScale = (1, 1, 1)\<rparr>"
  unfolding turnMesh64_def endQuat64_inverse_quarterTurnY detach_corner20_Y_inverse
  by (simp add: snapToGrid64_def Math_round_def quarterTurnX_def quarterTurnY_def
      inverseMove_def)

lemma detach_centre22_X:
  "detachPreserve64
     (- (1592262918131443 / 2251799813685248), 0, 0, 6369051672525773 / 9007199254740992)
     (attachPreserve64
       \<lparr>meshHome = (1, 0, 0), meshPosition = (1, 0, 0),
      meshQuaternion = (0, 0, 0, 1),
      meshScale = (1, 1, 1)\<rparr>)
   = \<lparr>meshHome = (1, 0, 0), meshPosition = (1, 0, 0),
      meshQuaternion = (- (1592262918131443 / 2251799813685248), 0, 0,
        6369051672525773 / 9007199254740992),
      meshScale = (1, 1, 1)\<rparr>"
  by (simp add: attachPreserve64_def detachPreserve64_def groupMatrixWorld64_def
      applyMatrix4_64_def updateMatrix64_def identityMatrix4_def steps64)

lemma turn_centre22_X:
  "turnMesh64 (quarterTurnX)
     \<lparr>meshHome = (1, 0, 0), meshPosition = (1, 0, 0),
      meshQuaternion = (0, 0, 0, 1),
      meshScale = (1, 1, 1)\<rparr>
   = \<lparr>meshHome = (1, 0, 0), meshPosition = (1, 0, 0),
      meshQuaternion = (- (1592262918131443 / 2251799813685248), 0, 0,
        6369051672525773 / 9007199254740992),
      meshScale = (1, 1, 1)\<rparr>"
  unfolding turnMesh64_def endQuat64_quarterTurnX detach_centre22_X
  by (simp add: snapToGrid64_def Math_round_def quarterTurnX_def quarterTurnY_def
      inverseMove_def)

lemma detach_corner26_X:
  "detachPreserve64
     (- (1592262918131443 / 2251799813685248), 0, 0, 6369051672525773 / 9007199254740992)
     (attachPreserve64
       \<lparr>meshHome = (1, 1, 1), meshPosition = (1, 1, 1),
      meshQuaternion = (0, 0, 0, 1),
      meshScale = (1, 1, 1)\<rparr>)
   = \<lparr>meshHome = (1, 1, 1), meshPosition = (1, 4503599627370497 / 4503599627370496,
        - (4503599627370495 / 4503599627370496)),
      meshQuaternion = (- (1592262918131443 / 2251799813685248), 0, 0,
        6369051672525773 / 9007199254740992),
      meshScale = (1, 1, 1)\<rparr>"
  by (simp add: attachPreserve64_def detachPreserve64_def groupMatrixWorld64_def
      applyMatrix4_64_def updateMatrix64_def identityMatrix4_def steps64)

lemma turn_corner26_X:
  "turnMesh64 (quarterTurnX)
     \<lparr>meshHome = (1, 1, 1), meshPosition = (1, 1, 1),
      meshQuaternion = (0, 0, 0, 1),
      meshScale = (1, 1, 1)\<rparr>
   = \<lparr>meshHome = (1, 1, 1), meshPosition = (1, 1, - 1),
      meshQuaternion = (- (1592262918131443 / 2251799813685248), 0, 0,
        6369051672525773 / 9007199254740992),
      meshScale = (1, 1, 1)\<rparr>"
  unfolding turnMesh64_def endQuat64_quarterTurnX detach_corner26_X
  by (simp add: snapToGrid64_def Math_round_def quarterTurnX_def quarterTurnY_def
      inverseMove_def)

section \<open>The inverse law\<close>

text \<open>
  Claim C2, amended. A quarter turn of an outer face followed by its inverse (same axis,
  sign and quarters, \<open>cw\<close> negated) gives every cubelet its position back, exactly: in
  binary64 from every state whose cubelets sit on the lattice, and in exact arithmetic
  for every move from every rest state. The orientation does not share this: in exact
  arithmetic it comes back as well (\<open>animateTurn_inverse_cubelets\<close>), but in binary64
  each of the two turns multiplies the matrix of the cubelet by a rounded rotation and
  decomposes the product into a quaternion again, and the quaternion that results may
  differ from the one before the two turns.
\<close>

theorem turn_then_inverse_restores_positions:
  "(isQuarterTurn m \<and> list_all (\<lambda>c. meshPosition c \<in> lattice) cs \<longrightarrow>
      map meshPosition (animateTurn64 (inverseMove m) (animateTurn64 m cs)) = map meshPosition cs
      \<and> map meshHome (animateTurn64 (inverseMove m) (animateTurn64 m cs)) = map meshHome cs)
   \<and> (atRest s \<longrightarrow>
        map position (cubelets (animateTurn (inverseMove m) r2 (animateTurn m r1 s)))
        = map position (cubelets s))"
proof (intro conjI impI)
  assume a: "isQuarterTurn m \<and> list_all (\<lambda>c. meshPosition c \<in> lattice) cs"
  then show "map meshPosition (animateTurn64 (inverseMove m) (animateTurn64 m cs))
      = map meshPosition cs"
    by (simp add: animateTurn64_inverse_positions)
  show "map meshHome (animateTurn64 (inverseMove m) (animateTurn64 m cs)) = map meshHome cs"
    by (simp only: homes_animateTurn64)
next
  assume "atRest s"
  then show "map position (cubelets (animateTurn (inverseMove m) r2 (animateTurn m r1 s)))
      = map position (cubelets s)"
    by (simp only: animateTurn_inverse_cubelets)
qed

theorem turn_then_inverse_restores_positions_witness:
  "isQuarterTurn quarterTurnY
   \<and> list_all (\<lambda>c. meshPosition c \<in> lattice) buildSolvedCube64
   \<and> map meshPosition (animateTurn64 (inverseMove quarterTurnY)
        (animateTurn64 quarterTurnY buildSolvedCube64)) = map meshPosition buildSolvedCube64
   \<and> atRest initialSession
   \<and> map position (cubelets (animateTurn (inverseMove quarterTurnY) False
        (animateTurn quarterTurnY True initialSession))) = map position (cubelets initialSession)"
proof -
  have 1: "isQuarterTurn quarterTurnY" by simp
  have 2: "list_all (\<lambda>c. meshPosition c \<in> lattice) buildSolvedCube64"
    by (rule lattice_of_positions [OF positions_solved64])
  have 3: "atRest initialSession"
    using buildSolvedCube_rest by (simp add: atRest_def initialSession_def)
  from 1 2 3
    turn_then_inverse_restores_positions [of quarterTurnY buildSolvedCube64 initialSession False True]
  show ?thesis by blast
qed

text \<open>
  The original claim fails in binary64 on the rest state after one turn. The cubelet
  with home \<open>(1, -1, 1)\<close> (index 20) is in the layer of both turns. After
  \<open>quarterTurnX\<close> its quaternion is \<open>(-0.7071067811865475, 0, 0, 0.7071067811865476)\<close>;
  \<open>quarterTurnY\<close> and then its inverse bring the position back to \<open>(1, 1, 1)\<close> but leave
  \<open>-1.7431527984210492e-32\<close> in the second component of the quaternion, which was 0.
\<close>

theorem turn_then_inverse_changes_quaternion_counterexample:
  "animateTurn64 quarterTurnX buildSolvedCube64 ! 20
     = \<lparr>meshHome = (1, - 1, 1), meshPosition = (1, 1, 1),
        meshQuaternion = (- (6369051672525772 / 2 ^ 53), 0, 0, 6369051672525773 / 2 ^ 53),
        meshScale = (1, 1, 1)\<rparr>
   \<and> animateTurn64 quarterTurnY (animateTurn64 quarterTurnX buildSolvedCube64) ! 20
     = \<lparr>meshHome = (1, - 1, 1), meshPosition = (- 1, 1, 1),
        meshQuaternion = (- (1 / 2), - (1 / 2), - (4503599627370495 / 2 ^ 53),
                          4503599627370497 / 2 ^ 53),
        meshScale = (1, 1, 1)\<rparr>
   \<and> animateTurn64 (inverseMove quarterTurnY)
        (animateTurn64 quarterTurnY (animateTurn64 quarterTurnX buildSolvedCube64)) ! 20
     = \<lparr>meshHome = (1, - 1, 1), meshPosition = (1, 1, 1),
        meshQuaternion = (- (6369051672525772 / 2 ^ 53), - (1592262918131443 / 2 ^ 156), 0,
                          6369051672525773 / 2 ^ 53),
        meshScale = (1, 1, 1)\<rparr>
   \<and> animateTurn64 (inverseMove quarterTurnY)
        (animateTurn64 quarterTurnY (animateTurn64 quarterTurnX buildSolvedCube64)) ! 20
     \<noteq> animateTurn64 quarterTurnX buildSolvedCube64 ! 20"
proof -
  have a: "animateTurn64 quarterTurnX buildSolvedCube64 ! 20
      = turnMesh64 quarterTurnX (newMesh 1 (- 1) 1)"
    by (simp add: nth_animateTurn64 length_buildSolvedCube64 nth_buildSolvedCube64)
  have b: "animateTurn64 quarterTurnY (animateTurn64 quarterTurnX buildSolvedCube64) ! 20
      = turnMesh64 quarterTurnY (turnMesh64 quarterTurnX (newMesh 1 (- 1) 1))"
    by (simp add: nth_animateTurn64 length_buildSolvedCube64 nth_buildSolvedCube64)
  have d: "animateTurn64 (inverseMove quarterTurnY)
        (animateTurn64 quarterTurnY (animateTurn64 quarterTurnX buildSolvedCube64)) ! 20
      = turnMesh64 (inverseMove quarterTurnY)
          (turnMesh64 quarterTurnY (turnMesh64 quarterTurnX (newMesh 1 (- 1) 1)))"
    by (simp add: nth_animateTurn64 length_buildSolvedCube64 nth_buildSolvedCube64)
  show ?thesis
    unfolding a b d newMesh_literals turn_corner20_X turn_corner20_Y turn_corner20_Y_inverse
    by simp
qed

section \<open>Turns permute the lattice of positions\<close>

text \<open>
  Claim C3, amended. In every state reached from the solved cube by a finite sequence of
  awaited turns, the multiset of the positions of the 27 cubelets is exactly
  \<open>{-1, 0, 1}\<^sup>3\<close>, each cell once: in binary64 for every sequence of quarter turns of
  outer faces, and in exact arithmetic for every sequence of moves, recorded or not.
  The orientation of a cubelet is a rotation by multiples of 90 degrees in exact
  arithmetic only (\<open>runTurns_invariant\<close>); in binary64 it is one up to rounding errors,
  which no step of the turn removes.
\<close>

theorem reachable_positions_fill_lattice:
  "(list_all isQuarterTurn ms \<longrightarrow>
      mset (map meshPosition (turnAll64 ms buildSolvedCube64)) = mset_set lattice)
   \<and> (cubelets s = buildSolvedCube \<and> \<not> isTurning s \<longrightarrow>
        mset (map position (cubelets (runTurns ts s))) = mset_set lattice)"
proof (intro conjI impI)
  assume "list_all isQuarterTurn ms"
  then show "mset (map meshPosition (turnAll64 ms buildSolvedCube64)) = mset_set lattice"
    by (rule turnAll64_positions) (rule positions_solved64)
next
  assume "cubelets s = buildSolvedCube \<and> \<not> isTurning s"
  then show "mset (map position (cubelets (runTurns ts s))) = mset_set lattice"
    using runTurns_invariant [of s ts] by simp
qed

theorem reachable_positions_fill_lattice_witness:
  "list_all isQuarterTurn [quarterTurnX, quarterTurnY, inverseMove quarterTurnY]
   \<and> mset (map meshPosition
        (turnAll64 [quarterTurnX, quarterTurnY, inverseMove quarterTurnY] buildSolvedCube64))
     = mset_set lattice
   \<and> cubelets initialSession = buildSolvedCube \<and> \<not> isTurning initialSession
   \<and> mset (map position (cubelets (runTurns
        [(\<lparr>axis = X, sign = 1, cw = True, quarters = 1\<rparr>, True),
         (\<lparr>axis = Y, sign = - 1, cw = False, quarters = 2\<rparr>, False)] initialSession)))
     = mset_set lattice"
  using reachable_positions_fill_lattice
    [of "[quarterTurnX, quarterTurnY, inverseMove quarterTurnY]" initialSession
      "[(\<lparr>axis = X, sign = 1, cw = True, quarters = 1\<rparr>, True),
        (\<lparr>axis = Y, sign = - 1, cw = False, quarters = 2\<rparr>, False)]"]
  by (simp add: initialSession_def)

text \<open>
  The original claim fails in binary64 at the first turn. After \<open>quarterTurnX\<close> from the
  solved cube the centre cubelet of the turned face (index 22) is at its home position
  with the quaternion \<open>(-0.7071067811865475, 0, 0, 0.7071067811865476)\<close>. The matrix
  that \<^verbatim>\<open>updateMatrix\<close> composes from it has \<open>2\<^sup>-\<^sup>5\<^sup>2\<close>, 2.220446049250313e-16, where
  the quarter turn has 0, and the exact rotation matrix of that quaternion is no
  rotation of the cube either.
\<close>

theorem first_turn_orientation_off_grid_counterexample:
  "buildSolvedCube64 ! 22 = newMesh 1 0 0
   \<and> turnAll64 [quarterTurnX] buildSolvedCube64 ! 22
     = \<lparr>meshHome = (1, 0, 0), meshPosition = (1, 0, 0),
        meshQuaternion = (- (6369051672525772 / 2 ^ 53), 0, 0, 6369051672525773 / 2 ^ 53),
        meshScale = (1, 1, 1)\<rparr>
   \<and> meshRotation (turnAll64 [quarterTurnX] buildSolvedCube64 ! 22)
     = ((1, 0, 0), (0, 1 / 2 ^ 52, - 1), (0, 1, 1 / 2 ^ 52))
   \<and> \<not> isCubeRotation (meshRotation (turnAll64 [quarterTurnX] buildSolvedCube64 ! 22))
   \<and> \<not> isCubeRotation (makeRotationFromQuaternion
          (meshQuaternion (turnAll64 [quarterTurnX] buildSolvedCube64 ! 22)))"
proof -
  have c: "turnAll64 [quarterTurnX] buildSolvedCube64 ! 22
      = \<lparr>meshHome = (1, 0, 0), meshPosition = (1, 0, 0),
         meshQuaternion = (- (1592262918131443 / 2251799813685248), 0, 0,
                           6369051672525773 / 9007199254740992),
         meshScale = (1, 1, 1)\<rparr>"
    by (simp add: nth_animateTurn64 length_buildSolvedCube64 nth_buildSolvedCube64
        newMesh_literals turn_centre22_X)
  show ?thesis
    unfolding c using not_cube_rotation64 not_cube_rotation_exact
    by (simp add: nth_buildSolvedCube64 meshRotation_def updateMatrix64_def
        rotation_after_quarterTurnX)
qed

section \<open>The snap step\<close>

text \<open>
  Claim C5, amended. At the end of a turn each cubelet of the layer is detached from the
  group and snapped: every component of its position is rounded to the nearest integer
  by \<^verbatim>\<open>Math.round\<close> (for a quarter turn of a cubelet on the lattice the result is on
  the lattice again), while its quaternion and scale are those that the decomposition
  in \<^verbatim>\<open>attach\<close> produced: \<open>snapToGrid\<close> does not touch them, and no other step rounds
  them. The statement is in binary64.
\<close>

theorem snap_rounds_position_only:
  assumes "i < length cs"
    and "roundedIndex (component (meshPosition (cs ! i)) (axis m)) = sign m"
  shows "animateTurn64 m cs ! i
           = snapToGrid64 (detachPreserve64 (endQuat64 m) (attachPreserve64 (cs ! i)))
         \<and> snapped (meshPosition (animateTurn64 m cs ! i))
         \<and> meshQuaternion (animateTurn64 m cs ! i)
             = meshQuaternion (detachPreserve64 (endQuat64 m) (attachPreserve64 (cs ! i)))
         \<and> meshScale (animateTurn64 m cs ! i)
             = meshScale (detachPreserve64 (endQuat64 m) (attachPreserve64 (cs ! i)))
         \<and> (isQuarterTurn m \<longrightarrow> meshPosition (cs ! i) \<in> lattice \<longrightarrow>
               meshPosition (animateTurn64 m cs ! i) \<in> lattice)"
proof -
  have t: "animateTurn64 m cs ! i = turnMesh64 m (cs ! i)"
    by (rule nth_animateTurn64 [OF assms(1)])
  have e: "animateTurn64 m cs ! i
      = snapToGrid64 (detachPreserve64 (endQuat64 m) (attachPreserve64 (cs ! i)))"
    unfolding t using assms(2) by (simp add: turnMesh64_def)
  have l: "isQuarterTurn m \<longrightarrow> meshPosition (cs ! i) \<in> lattice \<longrightarrow>
      meshPosition (animateTurn64 m cs ! i) \<in> lattice"
    unfolding t by (simp add: position_turnMesh64 posTurn_lattice)
  from e l show ?thesis by (simp add: snapToGrid64_fields)
qed

theorem snap_rounds_position_only_witness:
  "26 < length buildSolvedCube64
   \<and> roundedIndex (component (meshPosition (buildSolvedCube64 ! 26)) (axis quarterTurnX))
       = sign quarterTurnX
   \<and> isQuarterTurn quarterTurnX
   \<and> meshPosition (buildSolvedCube64 ! 26) \<in> lattice
   \<and> snapped (meshPosition (animateTurn64 quarterTurnX buildSolvedCube64 ! 26))
   \<and> meshPosition (animateTurn64 quarterTurnX buildSolvedCube64 ! 26) \<in> lattice
   \<and> meshQuaternion (animateTurn64 quarterTurnX buildSolvedCube64 ! 26)
       = meshQuaternion (detachPreserve64 (endQuat64 quarterTurnX)
           (attachPreserve64 (buildSolvedCube64 ! 26)))"
proof -
  have 1: "26 < length buildSolvedCube64" by (simp add: length_buildSolvedCube64)
  have 2: "roundedIndex (component (meshPosition (buildSolvedCube64 ! 26)) (axis quarterTurnX))
             = sign quarterTurnX"
    by (simp add: nth_buildSolvedCube64 newMesh_def)
  have 3: "isQuarterTurn quarterTurnX" by simp
  have 4: "meshPosition (buildSolvedCube64 ! 26) \<in> lattice"
    by (simp add: nth_buildSolvedCube64 newMesh_def lattice_iff unitEntry_def)
  from 1 2 3 4 snap_rounds_position_only [OF 1 2] show ?thesis by blast
qed

text \<open>
  The original claim fails in binary64 at the first turn. \<open>quarterTurnX\<close> from the solved
  cube takes the corner cubelet with home \<open>(1, 1, 1)\<close> (index 26) to
  \<open>(1, 1.0000000000000002, -0.9999999999999998)\<close>, which the snap rounds to
  \<open>(1, 1, -1)\<close>. Its quaternion stays \<open>(-0.7071067811865475, 0, 0, 0.7071067811865476)\<close>,
  and the matrix composed from it keeps \<open>2\<^sup>-\<^sup>5\<^sup>2\<close> where the quarter turn has 0: the
  orientation is not snapped to a grid-aligned value.
\<close>

theorem snap_keeps_quaternion_error_counterexample:
  "buildSolvedCube64 ! 26 = newMesh 1 1 1
   \<and> meshPosition (detachPreserve64 (endQuat64 quarterTurnX) (attachPreserve64 (newMesh 1 1 1)))
     = (1, 1 + 1 / 2 ^ 52, - 1 + 1 / 2 ^ 52)
   \<and> animateTurn64 quarterTurnX buildSolvedCube64 ! 26
     = \<lparr>meshHome = (1, 1, 1), meshPosition = (1, 1, - 1),
        meshQuaternion = (- (6369051672525772 / 2 ^ 53), 0, 0, 6369051672525773 / 2 ^ 53),
        meshScale = (1, 1, 1)\<rparr>
   \<and> meshRotation (animateTurn64 quarterTurnX buildSolvedCube64 ! 26)
     = ((1, 0, 0), (0, 1 / 2 ^ 52, - 1), (0, 1, 1 / 2 ^ 52))
   \<and> \<not> isCubeRotation (meshRotation (animateTurn64 quarterTurnX buildSolvedCube64 ! 26))"
proof -
  have p: "meshPosition (detachPreserve64 (endQuat64 quarterTurnX) (attachPreserve64 (newMesh 1 1 1)))
      = (1, 1 + 1 / 2 ^ 52, - 1 + 1 / 2 ^ 52)"
    unfolding newMesh_literals endQuat64_quarterTurnX detach_corner26_X by simp
  have c: "animateTurn64 quarterTurnX buildSolvedCube64 ! 26
      = \<lparr>meshHome = (1, 1, 1), meshPosition = (1, 1, - 1),
         meshQuaternion = (- (1592262918131443 / 2251799813685248), 0, 0,
                           6369051672525773 / 9007199254740992),
         meshScale = (1, 1, 1)\<rparr>"
    by (simp add: nth_animateTurn64 length_buildSolvedCube64 nth_buildSolvedCube64
        newMesh_literals turn_corner26_X)
  show ?thesis
    unfolding c using p not_cube_rotation64
    by (simp add: nth_buildSolvedCube64 meshRotation_def updateMatrix64_def
        rotation_after_quarterTurnX)
qed

end
